theory Spec2Isabelle
  imports Main "HOL-Library.Word" "HOL-Library.Code_Target_Nat"
begin

unbundle bit_operations_syntax

section \<open>Constants\<close>

text \<open>
  Modelled from the spec: the headers \<^verbatim>\<open>errno.h\<close> (error numbers), \<^verbatim>\<open>nio.h\<close> (the
  \<^verbatim>\<open>IOS_\<close> status codes) and \<^verbatim>\<open>jni.h\<close> (\<^verbatim>\<open>JNI_FALSE\<close>) are not among the sources. The
  spec names the outcomes (would block, unsupported for this descriptor pair,
  unsupported on this platform, failed) and the errors (interrupted call, invalid
  argument, not implemented, cross-device, would block) and keeps them apart; the
  values below are those of the Linux ABI and of the JDK's \<^verbatim>\<open>nio.h\<close>. What the theorems
  use of them is that they differ.
\<close>

definition EINTR :: int where "EINTR = 4"
definition EAGAIN :: int where "EAGAIN = 11"
definition EXDEV :: int where "EXDEV = 18"
definition EINVAL :: int where "EINVAL = 22"
definition ENOSYS :: int where "ENOSYS = 38"
definition ECANCELED :: int where "ECANCELED = 125"

definition IOS_UNAVAILABLE :: int where "IOS_UNAVAILABLE = - 2"
definition IOS_UNSUPPORTED :: int where "IOS_UNSUPPORTED = - 4"
definition IOS_THROWN :: int where "IOS_THROWN = - 5"
definition IOS_UNSUPPORTED_CASE :: int where "IOS_UNSUPPORTED_CASE = - 6"

definition JNI_FALSE :: "8 word" where "JNI_FALSE = 0"

text \<open>The statx masks, flags and constants, lines 96 to 129 of the source.\<close>

definition AT_SYMLINK_NOFOLLOW :: "32 word" where "AT_SYMLINK_NOFOLLOW = 0x100"
definition AT_STATX_SYNC_AS_STAT :: "32 word" where "AT_STATX_SYNC_AS_STAT = 0x0000"
definition STATX_BASIC_STATS :: "32 word" where "STATX_BASIC_STATS = 0x000007ff"
definition STATX_BTIME :: "32 word" where "STATX_BTIME = 0x00000800"
definition STATX_ALL :: "32 word" where "STATX_ALL = (STATX_BTIME OR STATX_BASIC_STATS)"
definition AT_EMPTY_PATH :: "32 word" where "AT_EMPTY_PATH = 0x1000"
definition AT_FDCWD :: int where "AT_FDCWD = - 100"
definition NO_FOLLOW_SYMLINK :: int where "NO_FOLLOW_SYMLINK = 1"
definition FOLLOW_SYMLINK :: int where "FOLLOW_SYMLINK = 0"

section \<open>Data\<close>

text \<open>The kernel's \<^verbatim>\<open>struct statx_timestamp\<close> and \<^verbatim>\<open>struct statx\<close>, padding left out.\<close>

record statx_timestamp =
  tv_sec :: "64 word"
  tv_nsec :: "32 word"

record statx =
  stx_mask :: "32 word"
  stx_blksize :: "32 word"
  stx_attributes :: "64 word"
  stx_nlink :: "32 word"
  stx_uid :: "32 word"
  stx_gid :: "32 word"
  stx_mode :: "16 word"
  stx_ino :: "64 word"
  stx_size :: "64 word"
  stx_blocks :: "64 word"
  stx_attributes_mask :: "64 word"
  stx_atime :: statx_timestamp
  stx_btime :: statx_timestamp
  stx_ctime :: statx_timestamp
  stx_mtime :: statx_timestamp
  stx_rdev_major :: "32 word"
  stx_rdev_minor :: "32 word"
  stx_dev_major :: "32 word"
  stx_dev_minor :: "32 word"

text \<open>
  The Java object \<^verbatim>\<open>attrs\<close>: the fields of \<^verbatim>\<open>sun.nio.fs.UnixFileAttributes\<close> whose ids
  \<^verbatim>\<open>init\<close> loads, and \<^verbatim>\<open>stx_birthtime_nsec\<close> of \<^verbatim>\<open>LinuxFileAttributes\<close>. A Java
  \<^verbatim>\<open>int\<close> is a 32-bit word and a \<^verbatim>\<open>long\<close> a 64-bit word.
\<close>

record attributes =
  st_mode :: "32 word"
  st_ino :: "64 word"
  st_dev :: "64 word"
  st_rdev :: "64 word"
  st_nlink :: "32 word"
  st_uid :: "32 word"
  st_gid :: "32 word"
  st_size :: "64 word"
  st_atime_sec :: "64 word"
  st_atime_nsec :: "64 word"
  st_mtime_sec :: "64 word"
  st_mtime_nsec :: "64 word"
  st_ctime_sec :: "64 word"
  st_ctime_nsec :: "64 word"
  st_birthtime_sec :: "64 word"
  stx_birthtime_nsec :: "64 word"

text \<open>
  The capability table: the two function pointers that \<^verbatim>\<open>init\<close> resolves with
  \<^verbatim>\<open>dlsym\<close>. A pointer is either \<^verbatim>\<open>NULL\<close> or the resolved entry point.
\<close>

datatype fnptr = NULL | Resolved

record capabilities =
  my_statx_func :: fnptr
  my_copy_file_range_func :: fnptr

text \<open>
  A kernel call either succeeds with a value, leaving \<^verbatim>\<open>errno\<close> alone, or returns
  \<open>-1\<close> and stores an error number in \<^verbatim>\<open>errno\<close>. For \<^verbatim>\<open>statx\<close> the value is the
  filled buffer (the call returns 0); for \<^verbatim>\<open>copy_file_range\<close> and \<^verbatim>\<open>sendfile64\<close> it
  is the number of bytes moved.
\<close>

datatype 'a reply = Ok 'a | Fail int

text \<open>The path argument of \<^verbatim>\<open>statx\<close>: the caller's pointer, or the literal \<^verbatim>\<open>""\<close>.\<close>

datatype pathname = Path_at "64 word" | Empty_string

text \<open>
  A kernel call with its arguments. The offset pointers of \<^verbatim>\<open>copy_file_range\<close> and
  \<^verbatim>\<open>sendfile64\<close> are always \<^verbatim>\<open>NULL\<close> in the source and are left out.
\<close>

datatype syscall =
    Statx int pathname "32 word" "32 word"
  | Copy_file_range int int "64 word" "32 word"
  | Sendfile64 int int "64 word"

text \<open>
  What the call does that the outside can see, in order: a kernel call with the error
  it reported (\<open>None\<close> on success), or a read of the cancellation word.
\<close>

datatype event = Kernel syscall "int option" | Read_cancel "32 word"

text \<open>The exception left pending in the JNI environment.\<close>

datatype throwable =
    UnixException int
  | IOExceptionWithLastError int string

text \<open>
  The state a native call runs in. The kernel and the thread that may cancel the copy
  are the environment: \<open>statx_replies\<close> and \<open>io_replies\<close> are the answers the next
  kernel calls will get, \<open>cancel_reads\<close> the values the next reads of \<^verbatim>\<open>*cancel\<close>
  will see (the word is \<^verbatim>\<open>volatile\<close> and written by another thread). A call that
  needs an answer the environment does not hold has no result (\<open>None\<close>), as a call
  that never returns has none. \<open>statx_buf\<close> is the stack slot of the local
  \<^verbatim>\<open>struct statx\<close> of the two stat functions: the source does not initialise it, so
  before a kernel call fills it it holds whatever was there (\<open>None\<close>: nothing that
  can be read as a buffer).
\<close>

record world =
  errno :: int
  statx_replies :: "statx reply list"
  io_replies :: "nat reply list"
  cancel_reads :: "32 word list"
  statx_buf :: "statx option"
  trace :: "event list"
  pending :: "throwable option"

section \<open>The kernel entry points\<close>

definition reported :: "'a reply \<Rightarrow> int option" where
  "reported r = (case r of Ok _ \<Rightarrow> None | Fail e \<Rightarrow> Some e)"

definition call_statx :: "int \<Rightarrow> pathname \<Rightarrow> 32 word \<Rightarrow> 32 word \<Rightarrow> world \<Rightarrow> (int \<times> world) option" where
  "call_statx dirfd path flags msk w =
     (case statx_replies w of
        [] \<Rightarrow> None
      | Ok buf # rs \<Rightarrow>
          Some (0, w\<lparr>statx_replies := rs, statx_buf := Some buf,
                      trace := trace w @ [Kernel (Statx dirfd path flags msk) None]\<rparr>)
      | Fail e # rs \<Rightarrow>
          Some (- 1, w\<lparr>errno := e, statx_replies := rs,
                        trace := trace w @ [Kernel (Statx dirfd path flags msk) (Some e)]\<rparr>))"

definition call_io :: "syscall \<Rightarrow> world \<Rightarrow> (int \<times> world) option" where
  "call_io c w =
     (case io_replies w of
        [] \<Rightarrow> None
      | Ok n # rs \<Rightarrow>
          Some (int n, w\<lparr>io_replies := rs, trace := trace w @ [Kernel c None]\<rparr>)
      | Fail e # rs \<Rightarrow>
          Some (- 1, w\<lparr>errno := e, io_replies := rs,
                        trace := trace w @ [Kernel c (Some e)]\<rparr>))"

definition call_copy_file_range :: "int \<Rightarrow> int \<Rightarrow> 64 word \<Rightarrow> 32 word \<Rightarrow> world \<Rightarrow> (int \<times> world) option" where
  "call_copy_file_range fd_in fd_out len flags = call_io (Copy_file_range fd_in fd_out len flags)"

definition sendfile64 :: "int \<Rightarrow> int \<Rightarrow> 64 word \<Rightarrow> world \<Rightarrow> (int \<times> world) option" where
  "sendfile64 out_fd in_fd count = call_io (Sendfile64 out_fd in_fd count)"

text \<open>
  Reading \<^verbatim>\<open>*cancel\<close>. The source evaluates \<^verbatim>\<open>cancel != NULL && *cancel != 0\<close>, so
  the word is read only when the pointer is not \<^verbatim>\<open>NULL\<close>.
\<close>

definition cancel_requested :: "64 word \<Rightarrow> world \<Rightarrow> (bool \<times> world) option" where
  "cancel_requested cancel w =
     (if cancel \<noteq> 0 then
        (case cancel_reads w of
           [] \<Rightarrow> None
         | v # vs \<Rightarrow> Some (v \<noteq> 0, w\<lparr>cancel_reads := vs, trace := trace w @ [Read_cancel v]\<rparr>))
      else Some (False, w))"

section \<open>The functions of the source\<close>

text \<open>
  \<^verbatim>\<open>statx_wrapper\<close>, lines 158 to 164.
\<close>

definition statx_wrapper ::
  "int \<Rightarrow> pathname \<Rightarrow> 32 word \<Rightarrow> 32 word \<Rightarrow> int \<Rightarrow> world \<Rightarrow> (int \<times> world) option" where
  "statx_wrapper dirfd path flags msk follow_symlink w =
     (let flags = (if follow_symlink = NO_FOLLOW_SYMLINK then flags OR AT_SYMLINK_NOFOLLOW else flags)
      in call_statx dirfd path flags msk w)"

text \<open>
  The macro \<^verbatim>\<open>RESTARTABLE\<close>, lines 170 to 174: run the command, and again while it
  returns \<open>-1\<close> with \<^verbatim>\<open>errno == EINTR\<close>. The loop has no bound in the source.
\<close>

partial_function (option) RESTARTABLE ::
  "(world \<Rightarrow> (int \<times> world) option) \<Rightarrow> world \<Rightarrow> (int \<times> world) option" where
  "RESTARTABLE cmd w =
     (case cmd w of
        None \<Rightarrow> None
      | Some (result, w') \<Rightarrow>
          if result = - 1 \<and> errno w' = EINTR then RESTARTABLE cmd w' else Some (result, w'))"

declare RESTARTABLE.simps [code]

text \<open>
  \<^verbatim>\<open>throwUnixException\<close>, lines 176 to 182. Creating the exception object is taken to
  succeed.
\<close>

definition throwUnixException :: "int \<Rightarrow> world \<Rightarrow> world" where
  "throwUnixException errnum w = w\<lparr>pending := Some (UnixException errnum)\<rparr>"

text \<open>
  Modelled from the spec: \<^verbatim>\<open>JNU_ThrowIOExceptionWithLastError\<close> is a function of
  \<^verbatim>\<open>jni_util\<close>, which is not among the sources. The spec has a fatal error of Tier A
  reported as a failure with that error: the exception raised carries the message
  given and the error number found in \<^verbatim>\<open>errno\<close>.
\<close>

definition JNU_ThrowIOExceptionWithLastError :: "string \<Rightarrow> world \<Rightarrow> world" where
  "JNU_ThrowIOExceptionWithLastError msg w = w\<lparr>pending := Some (IOExceptionWithLastError (errno w) msg)\<rparr>"

text \<open>
  Modelled from the spec: \<^verbatim>\<open>makedev\<close> is a macro of \<^verbatim>\<open>sys/sysmacros.h\<close>, which is not
  among the sources. The spec asks for the kernel's standard encoding of a device
  number from its major and minor parts; this is the one of the C library.
\<close>

definition makedev :: "32 word \<Rightarrow> 32 word \<Rightarrow> 64 word" where
  "makedev major minor =
     (push_bit 8 (ucast (major AND 0x00000fff)) OR
      push_bit 32 (ucast (major AND 0xfffff000)) OR
      ucast (minor AND 0x000000ff) OR
      push_bit 12 (ucast (minor AND 0xffffff00)))"

text \<open>\<^verbatim>\<open>copy_statx_attributes\<close>, lines 335 to 355.\<close>

definition copy_statx_attributes :: "statx \<Rightarrow> attributes \<Rightarrow> attributes" where
  "copy_statx_attributes buf attrs =
     attrs\<lparr>st_mode := ucast (stx_mode buf),
           st_ino := stx_ino buf,
           st_nlink := stx_nlink buf,
           st_uid := stx_uid buf,
           st_gid := stx_gid buf,
           st_size := stx_size buf,
           st_atime_sec := tv_sec (stx_atime buf),
           st_mtime_sec := tv_sec (stx_mtime buf),
           st_ctime_sec := tv_sec (stx_ctime buf),
           st_birthtime_sec := tv_sec (stx_btime buf),
           stx_birthtime_nsec := ucast (tv_nsec (stx_btime buf)),
           st_atime_nsec := ucast (tv_nsec (stx_atime buf)),
           st_mtime_nsec := ucast (tv_nsec (stx_mtime buf)),
           st_ctime_nsec := ucast (tv_nsec (stx_ctime buf)),
           st_dev := makedev (stx_dev_major buf) (stx_dev_minor buf),
           st_rdev := makedev (stx_rdev_major buf) (stx_rdev_minor buf)\<rparr>"

text \<open>
  \<^verbatim>\<open>Java_sun_nio_fs_LinuxNativeDispatcher_statx0\<close>, lines 357 to 384. The result is
  the returned \<^verbatim>\<open>jint\<close>, the attributes object after the call and the state.
\<close>

definition Java_sun_nio_fs_LinuxNativeDispatcher_statx0 ::
  "capabilities \<Rightarrow> 64 word \<Rightarrow> attributes \<Rightarrow> 8 word \<Rightarrow> world \<Rightarrow> (int \<times> attributes \<times> world) option" where
  "Java_sun_nio_fs_LinuxNativeDispatcher_statx0 caps pathAddress attrs follow_links w =
     (let flags = AT_STATX_SYNC_AS_STAT;
          msk = STATX_ALL;
          path = Path_at pathAddress
      in if my_statx_func caps \<noteq> NULL then
           (let f_symlink = (if follow_links = JNI_FALSE then NO_FOLLOW_SYMLINK else FOLLOW_SYMLINK)
            in case RESTARTABLE (statx_wrapper AT_FDCWD path flags msk f_symlink) w of
                 None \<Rightarrow> None
               | Some (err, w') \<Rightarrow>
                   if err = 0 then
                     (case statx_buf w' of
                        None \<Rightarrow> None
                      | Some buf \<Rightarrow> Some (0, copy_statx_attributes buf attrs, w'))
                   else Some (errno w', attrs, w'))
         else Some (0, attrs, w))"

text \<open>\<^verbatim>\<open>Java_sun_nio_fs_LinuxNativeDispatcher_statxfd0\<close>, lines 386 to 410.\<close>

definition Java_sun_nio_fs_LinuxNativeDispatcher_statxfd0 ::
  "capabilities \<Rightarrow> int \<Rightarrow> attributes \<Rightarrow> world \<Rightarrow> (int \<times> attributes \<times> world) option" where
  "Java_sun_nio_fs_LinuxNativeDispatcher_statxfd0 caps fd attrs w =
     (let flags = AT_EMPTY_PATH OR AT_STATX_SYNC_AS_STAT;
          msk = STATX_ALL
      in if my_statx_func caps \<noteq> NULL then
           (case RESTARTABLE (statx_wrapper fd Empty_string flags msk FOLLOW_SYMLINK) w of
              None \<Rightarrow> None
            | Some (err, w') \<Rightarrow>
                if err = 0 then
                  (case statx_buf w' of
                     None \<Rightarrow> None
                   | Some buf \<Rightarrow> Some (0, copy_statx_attributes buf attrs, w'))
                else Some (errno w', attrs, w'))
         else Some (0, attrs, w))"

text \<open>
  \<^verbatim>\<open>Java_sun_nio_fs_LinuxNativeDispatcher_directCopy0\<close>, lines 429 to 484. Each of
  its two \<^verbatim>\<open>do ... while (bytes_sent > 0)\<close> loops either returns from the function
  or ends with the last value of \<^verbatim>\<open>bytes_sent\<close>.
\<close>

datatype flow = Return int | Loop_end int

partial_function (option) copy_file_range_loop ::
  "int \<Rightarrow> int \<Rightarrow> 64 word \<Rightarrow> 64 word \<Rightarrow> world \<Rightarrow> (flow \<times> world) option" where
  "copy_file_range_loop dst src cancel count w =
     (case RESTARTABLE (call_copy_file_range src dst count 0) w of
        None \<Rightarrow> None
      | Some (bytes_sent, w1) \<Rightarrow>
          if bytes_sent < 0 \<and> \<not> (errno w1 = EINVAL \<or> errno w1 = ENOSYS \<or> errno w1 = EXDEV) then
            Some (Return IOS_THROWN, JNU_ThrowIOExceptionWithLastError ''Copy failed'' w1)
          else
            (case cancel_requested cancel w1 of
               None \<Rightarrow> None
             | Some (cancelled, w2) \<Rightarrow>
                 if cancelled then Some (Return IOS_THROWN, throwUnixException ECANCELED w2)
                 else if bytes_sent > 0 then copy_file_range_loop dst src cancel count w2
                 else Some (Loop_end bytes_sent, w2)))"

partial_function (option) sendfile_loop ::
  "int \<Rightarrow> int \<Rightarrow> 64 word \<Rightarrow> 64 word \<Rightarrow> world \<Rightarrow> (flow \<times> world) option" where
  "sendfile_loop dst src cancel count w =
     (case RESTARTABLE (sendfile64 dst src count) w of
        None \<Rightarrow> None
      | Some (bytes_sent, w1) \<Rightarrow>
          if bytes_sent < 0 then
            (if errno w1 = EAGAIN then Some (Return IOS_UNAVAILABLE, w1)
             else if errno w1 = EINVAL \<or> errno w1 = ENOSYS then Some (Return IOS_UNSUPPORTED_CASE, w1)
             else Some (Return IOS_THROWN, throwUnixException (errno w1) w1))
          else
            (case cancel_requested cancel w1 of
               None \<Rightarrow> None
             | Some (cancelled, w2) \<Rightarrow>
                 if cancelled then Some (Return IOS_THROWN, throwUnixException ECANCELED w2)
                 else if bytes_sent > 0 then sendfile_loop dst src cancel count w2
                 else Some (Loop_end bytes_sent, w2)))"

declare copy_file_range_loop.simps [code]

declare sendfile_loop.simps [code]

definition chunk_size :: "64 word \<Rightarrow> 64 word" where
  "chunk_size cancel = (if cancel \<noteq> 0 then 1048576 else 0x7ffff000)"

definition tier_b :: "int \<Rightarrow> int \<Rightarrow> 64 word \<Rightarrow> 64 word \<Rightarrow> world \<Rightarrow> (int \<times> world) option" where
  "tier_b dst src cancel count w =
     (case sendfile_loop dst src cancel count w of
        None \<Rightarrow> None
      | Some (Return r, w') \<Rightarrow> Some (r, w')
      | Some (Loop_end _, w') \<Rightarrow> Some (0, w'))"

definition Java_sun_nio_fs_LinuxNativeDispatcher_directCopy0 ::
  "capabilities \<Rightarrow> int \<Rightarrow> int \<Rightarrow> 64 word \<Rightarrow> world \<Rightarrow> (int \<times> world) option" where
  "Java_sun_nio_fs_LinuxNativeDispatcher_directCopy0 caps dst src cancelAddress w =
     (let cancel = cancelAddress;
          count = chunk_size cancel
      in if my_copy_file_range_func caps \<noteq> NULL then
           (case copy_file_range_loop dst src cancel count w of
              None \<Rightarrow> None
            | Some (Return r, w') \<Rightarrow> Some (r, w')
            | Some (Loop_end bytes_sent, w') \<Rightarrow>
                if bytes_sent = 0 then Some (0, w') else tier_b dst src cancel count w')
         else tier_b dst src cancel count w)"

section \<open>Vocabulary of the statements\<close>

text \<open>
  What a kernel call returns for a reply, and the state after \<open>k\<close> interrupted attempts
  of a call followed by the reply \<open>r\<close>: \<^verbatim>\<open>errno\<close> holds the last error stored, the
  replies are used up to \<open>rest\<close>, and the trace has grown by the \<open>k + 1\<close> calls.
\<close>

definition retval :: "nat reply \<Rightarrow> int" where
  "retval r = (case r of Ok n \<Rightarrow> int n | Fail _ \<Rightarrow> - 1)"

definition io_answered :: "nat \<Rightarrow> syscall \<Rightarrow> nat reply \<Rightarrow> nat reply list \<Rightarrow> world \<Rightarrow> world" where
  "io_answered k c r rest w =
     w\<lparr>errno := (case r of Fail e \<Rightarrow> e | Ok _ \<Rightarrow> if k = 0 then errno w else EINTR),
       io_replies := rest,
       trace := trace w @ replicate k (Kernel c (Some EINTR)) @ [Kernel c (reported r)]\<rparr>"

definition statx_retval :: "statx reply \<Rightarrow> int" where
  "statx_retval r = (case r of Ok _ \<Rightarrow> 0 | Fail _ \<Rightarrow> - 1)"

definition statx_answered :: "nat \<Rightarrow> syscall \<Rightarrow> statx reply \<Rightarrow> statx reply list \<Rightarrow> world \<Rightarrow> world" where
  "statx_answered k c r rest w =
     w\<lparr>errno := (case r of Fail e \<Rightarrow> e | Ok _ \<Rightarrow> if k = 0 then errno w else EINTR),
       statx_replies := rest,
       statx_buf := (case r of Ok buf \<Rightarrow> Some buf | Fail _ \<Rightarrow> statx_buf w),
       trace := trace w @ replicate k (Kernel c (Some EINTR)) @ [Kernel c (reported r)]\<rparr>"

text \<open>
  The one kernel call that each of the two stat functions issues, with the values of the
  constants written out.
\<close>

definition statx0_call :: "64 word \<Rightarrow> 8 word \<Rightarrow> syscall" where
  "statx0_call p fl = Statx (- 100) (Path_at p) (if fl = 0 then 0x100 else 0) 0xfff"

definition statxfd0_call :: "int \<Rightarrow> syscall" where
  "statxfd0_call fd = Statx fd Empty_string 0x1000 0xfff"

text \<open>
  The two tiers of \<^verbatim>\<open>directCopy0\<close>: Tier A is the \<^verbatim>\<open>copy_file_range\<close> loop, Tier B the
  \<^verbatim>\<open>sendfile64\<close> loop. \<open>chunk_call\<close> is the kernel call of one chunk in each.
\<close>

datatype tier = Tier_A | Tier_B

definition chunk_call :: "tier \<Rightarrow> int \<Rightarrow> int \<Rightarrow> 64 word \<Rightarrow> syscall" where
  "chunk_call t dst src count =
     (case t of Tier_A \<Rightarrow> Copy_file_range src dst count 0 | Tier_B \<Rightarrow> Sendfile64 dst src count)"

text \<open>
  \<open>reaches caps dst src cancel w0 t w\<close>: the call of \<^verbatim>\<open>directCopy0\<close> that starts in state
  \<open>w0\<close> stands at the head of an iteration of the loop of tier \<open>t\<close> in state \<open>w\<close>. It
  enters Tier A when \<^verbatim>\<open>copy_file_range\<close> was resolved and Tier B otherwise; a chunk of
  positive length with no cancellation seen leads to the next iteration of the same
  loop; an error of Tier A that the \<^verbatim>\<open>switch\<close> ignores, with no cancellation seen, leads
  to the first iteration of Tier B. A statement about every state that \<open>reaches\<close> holds
  of is a statement about every chunk of a call, not only the first.
\<close>

inductive reaches :: "capabilities \<Rightarrow> int \<Rightarrow> int \<Rightarrow> 64 word \<Rightarrow> world \<Rightarrow> tier \<Rightarrow> world \<Rightarrow> bool"
  for caps dst src cancel w0 where
  enter_a: "my_copy_file_range_func caps \<noteq> NULL \<Longrightarrow> reaches caps dst src cancel w0 Tier_A w0"
| enter_b: "my_copy_file_range_func caps = NULL \<Longrightarrow> reaches caps dst src cancel w0 Tier_B w0"
| again_a: "reaches caps dst src cancel w0 Tier_A w \<Longrightarrow>
            RESTARTABLE (call_copy_file_range src dst (chunk_size cancel) 0) w = Some (n, w1) \<Longrightarrow>
            0 < n \<Longrightarrow> cancel_requested cancel w1 = Some (False, w2) \<Longrightarrow>
            reaches caps dst src cancel w0 Tier_A w2"
| fall_through: "reaches caps dst src cancel w0 Tier_A w \<Longrightarrow>
            RESTARTABLE (call_copy_file_range src dst (chunk_size cancel) 0) w = Some (n, w1) \<Longrightarrow>
            n < 0 \<Longrightarrow> errno w1 = EINVAL \<or> errno w1 = ENOSYS \<or> errno w1 = EXDEV \<Longrightarrow>
            cancel_requested cancel w1 = Some (False, w2) \<Longrightarrow>
            reaches caps dst src cancel w0 Tier_B w2"
| again_b: "reaches caps dst src cancel w0 Tier_B w \<Longrightarrow>
            RESTARTABLE (sendfile64 dst src (chunk_size cancel)) w = Some (n, w1) \<Longrightarrow>
            0 < n \<Longrightarrow> cancel_requested cancel w1 = Some (False, w2) \<Longrightarrow>
            reaches caps dst src cancel w0 Tier_B w2"

code_pred reaches .

text \<open>
  What \<^verbatim>\<open>directCopy0\<close> still has to do when it stands at the head of an iteration.
\<close>

definition continue_from :: "tier \<Rightarrow> int \<Rightarrow> int \<Rightarrow> 64 word \<Rightarrow> world \<Rightarrow> (int \<times> world) option" where
  "continue_from t dst src cancel w =
     (case t of
        Tier_A \<Rightarrow>
          (case copy_file_range_loop dst src cancel (chunk_size cancel) w of
             None \<Rightarrow> None
           | Some (Return r, w') \<Rightarrow> Some (r, w')
           | Some (Loop_end bytes_sent, w') \<Rightarrow>
               if bytes_sent = 0 then Some (0, w') else tier_b dst src cancel (chunk_size cancel) w')
      | Tier_B \<Rightarrow> tier_b dst src cancel (chunk_size cancel) w)"

text \<open>
  The state after the cancellation check that follows a chunk: nothing is read when
  the pointer is \<^verbatim>\<open>NULL\<close>, else the value \<open>v\<close> is read.
\<close>

definition polled :: "64 word \<Rightarrow> 32 word \<Rightarrow> 32 word list \<Rightarrow> world \<Rightarrow> world" where
  "polled cancel v vs w =
     (if cancel = 0 then w else w\<lparr>cancel_reads := vs, trace := trace w @ [Read_cancel v]\<rparr>)"

text \<open>
  Properties of the events of a run. \<open>restarted\<close>: every kernel call that reported
  \<^verbatim>\<open>EINTR\<close> is followed at once by the same call with the same arguments.
  \<open>requests n\<close>: a chunk request asks for \<open>n\<close> bytes, and no other kernel call is made.
  \<open>surfaced\<close>: the pending exception is the one from before the call, or one whose error
  number is not \<^verbatim>\<open>EINTR\<close>. \<open>run_ok\<close> puts them together for the events between two
  states, \<open>returns_ok\<close> and \<open>status_ok\<close> list the values a loop and the function return.
\<close>

fun restarted :: "event list \<Rightarrow> bool" where
  "restarted [] = True"
| "restarted (Read_cancel v # es) = restarted es"
| "restarted (Kernel c r # es) =
     ((r = Some EINTR \<longrightarrow> (case es of Kernel c' r' # es' \<Rightarrow> c' = c | _ \<Rightarrow> False)) \<and> restarted es)"

fun requests :: "64 word \<Rightarrow> event \<Rightarrow> bool" where
  "requests n (Read_cancel v) = True"
| "requests n (Kernel (Copy_file_range fd_in fd_out len flags) r) = (len = n)"
| "requests n (Kernel (Sendfile64 out_fd in_fd count) r) = (count = n)"
| "requests n (Kernel (Statx dirfd path flags msk) r) = False"

definition surfaced :: "throwable option \<Rightarrow> throwable option \<Rightarrow> bool" where
  "surfaced before after =
     (after = before \<or>
      (case after of
         None \<Rightarrow> False
       | Some (UnixException e) \<Rightarrow> e \<noteq> EINTR
       | Some (IOExceptionWithLastError e msg) \<Rightarrow> e \<noteq> EINTR))"

definition run_ok :: "64 word \<Rightarrow> world \<Rightarrow> world \<Rightarrow> bool" where
  "run_ok count w w' =
     (take (length (trace w)) (trace w') = trace w \<and>
      restarted (drop (length (trace w)) (trace w')) \<and>
      list_all (requests count) (drop (length (trace w)) (trace w')) \<and>
      surfaced (pending w) (pending w'))"

definition returns_ok :: "flow \<Rightarrow> bool" where
  "returns_ok f = (case f of Return r \<Rightarrow> r = IOS_THROWN \<or> r = IOS_UNAVAILABLE \<or> r = IOS_UNSUPPORTED_CASE
                          | Loop_end n \<Rightarrow> n \<le> 0)"

definition status_ok :: "int \<Rightarrow> bool" where
  "status_ok r = (r = 0 \<or> r = IOS_THROWN \<or> r = IOS_UNAVAILABLE \<or> r = IOS_UNSUPPORTED_CASE)"

text \<open>
  Cancellation in the events of a run. \<open>cancel_seen\<close>: the event is a read of the
  cancellation word that found it set. \<open>cancel_ends evs c\<close>: if the word was found set
  anywhere in \<open>evs\<close>, that read is the last event, no earlier read found it set, and
  \<open>c\<close> holds. \<open>quiet\<close>: between two states the word was not found set. \<open>cancel_ok\<close>
  states \<open>cancel_ends\<close> of the events between two states, \<open>is_cancelled\<close> is the way the
  source reports cancellation.
\<close>

fun cancel_seen :: "event \<Rightarrow> bool" where
  "cancel_seen (Read_cancel v) = (v \<noteq> 0)"
| "cancel_seen (Kernel c r) = False"

definition cancel_ends :: "event list \<Rightarrow> bool \<Rightarrow> bool" where
  "cancel_ends evs cancelled =
     (if list_ex cancel_seen evs
      then cancelled \<and> cancel_seen (last evs) \<and> \<not> list_ex cancel_seen (butlast evs)
      else True)"

definition quiet :: "world \<Rightarrow> world \<Rightarrow> bool" where
  "quiet w w' =
     (take (length (trace w)) (trace w') = trace w \<and>
      \<not> list_ex cancel_seen (drop (length (trace w)) (trace w')))"

definition cancel_ok :: "world \<Rightarrow> bool \<Rightarrow> world \<Rightarrow> bool" where
  "cancel_ok w cancelled w' =
     (take (length (trace w)) (trace w') = trace w \<and>
      cancel_ends (drop (length (trace w)) (trace w')) cancelled)"

definition is_cancelled :: "int \<Rightarrow> world \<Rightarrow> bool" where
  "is_cancelled r w' = (r = IOS_THROWN \<and> pending w' = Some (UnixException ECANCELED))"

definition flow_cancelled :: "flow \<Rightarrow> world \<Rightarrow> bool" where
  "flow_cancelled f w' = (case f of Return r \<Rightarrow> is_cancelled r w' | Loop_end n \<Rightarrow> False)"

text \<open>
  Concrete inputs for the examples: capability tables, initial states with given
  replies of the kernel and given values of the cancellation word, a filled buffer
  and an attributes object.
\<close>

definition both_resolved :: capabilities where
  "both_resolved = \<lparr>my_statx_func = Resolved, my_copy_file_range_func = Resolved\<rparr>"

definition none_resolved :: capabilities where
  "none_resolved = \<lparr>my_statx_func = NULL, my_copy_file_range_func = NULL\<rparr>"

definition copy_world :: "nat reply list \<Rightarrow> 32 word list \<Rightarrow> world" where
  "copy_world rs vs =
     \<lparr>errno = 0, statx_replies = [], io_replies = rs, cancel_reads = vs, statx_buf = None,
      trace = [], pending = None\<rparr>"

definition stat_world :: "statx reply list \<Rightarrow> world" where
  "stat_world rs =
     \<lparr>errno = 0, statx_replies = rs, io_replies = [], cancel_reads = [], statx_buf = None,
      trace = [], pending = None\<rparr>"

definition sample_statx :: statx where
  "sample_statx =
     \<lparr>stx_mask = 0xfff, stx_blksize = 4096, stx_attributes = 0, stx_nlink = 1, stx_uid = 1000,
      stx_gid = 1000, stx_mode = 0x81a4, stx_ino = 42, stx_size = 5, stx_blocks = 8,
      stx_attributes_mask = 0,
      stx_atime = \<lparr>tv_sec = 1700000000, tv_nsec = 1\<rparr>,
      stx_btime = \<lparr>tv_sec = 1600000000, tv_nsec = 2\<rparr>,
      stx_ctime = \<lparr>tv_sec = 1700000001, tv_nsec = 3\<rparr>,
      stx_mtime = \<lparr>tv_sec = 1700000002, tv_nsec = 4\<rparr>,
      stx_rdev_major = 0, stx_rdev_minor = 0, stx_dev_major = 8, stx_dev_minor = 1\<rparr>"

definition blank_attributes :: attributes where
  "blank_attributes =
     \<lparr>st_mode = 0, st_ino = 0, st_dev = 0, st_rdev = 0, st_nlink = 0, st_uid = 0, st_gid = 0,
      st_size = 0, st_atime_sec = 0, st_atime_nsec = 0, st_mtime_sec = 0, st_mtime_nsec = 0,
      st_ctime_sec = 0, st_ctime_nsec = 0, st_birthtime_sec = 0, stx_birthtime_nsec = 0\<rparr>"

section \<open>The restart macro on each kernel call\<close>

lemma RESTARTABLE_io:
  "io_replies w = replicate k (Fail EINTR) @ r # rest \<Longrightarrow> r \<noteq> Fail EINTR \<Longrightarrow>
   RESTARTABLE (call_io c) w = Some (retval r, io_answered k c r rest w)"
proof (induction k arbitrary: w)
  case 0
  then show ?case
    by (subst RESTARTABLE.simps)
       (cases r; simp add: call_io_def retval_def io_answered_def reported_def)
next
  case (Suc k)
  let ?w1 = "w\<lparr>errno := EINTR, io_replies := replicate k (Fail EINTR) @ r # rest,
                 trace := trace w @ [Kernel c (Some EINTR)]\<rparr>"
  have step: "RESTARTABLE (call_io c) w = RESTARTABLE (call_io c) ?w1"
    using Suc.prems(1) by (subst RESTARTABLE.simps) (simp add: call_io_def)
  have "RESTARTABLE (call_io c) ?w1 = Some (retval r, io_answered k c r rest ?w1)"
    using Suc.prems(2) by (intro Suc.IH) simp_all
  moreover have "io_answered k c r rest ?w1 = io_answered (Suc k) c r rest w"
    by (cases r) (simp_all add: io_answered_def replicate_app_Cons_same)
  ultimately show ?case using step by simp
qed

lemma RESTARTABLE_io_Some:
  "RESTARTABLE (call_io c) w = Some (n, w') \<Longrightarrow>
   \<exists>k r rest. io_replies w = replicate k (Fail EINTR) @ r # rest \<and> r \<noteq> Fail EINTR \<and>
     n = retval r \<and> w' = io_answered k c r rest w"
proof (induction "io_replies w" arbitrary: w)
  case Nil
  then show ?case by (subst (asm) RESTARTABLE.simps) (simp add: call_io_def)
next
  case (Cons a rs)
  show ?case
  proof (cases "a = Fail EINTR")
    case False
    have "io_replies w = replicate 0 (Fail EINTR) @ a # rs" using Cons.hyps(2) by simp
    from RESTARTABLE_io [OF this False, of c] Cons.prems
    have "n = retval a \<and> w' = io_answered 0 c a rs w" by simp
    with False \<open>io_replies w = replicate 0 (Fail EINTR) @ a # rs\<close> show ?thesis by blast
  next
    case True
    let ?w1 = "w\<lparr>errno := EINTR, io_replies := rs, trace := trace w @ [Kernel c (Some EINTR)]\<rparr>"
    have "RESTARTABLE (call_io c) w = RESTARTABLE (call_io c) ?w1"
      using Cons.hyps(2) [symmetric] True by (subst RESTARTABLE.simps) (simp add: call_io_def)
    with Cons.prems have "RESTARTABLE (call_io c) ?w1 = Some (n, w')" by simp
    moreover have "rs = io_replies ?w1" by simp
    ultimately obtain k r rest where
      k: "io_replies ?w1 = replicate k (Fail EINTR) @ r # rest" "r \<noteq> Fail EINTR"
         "n = retval r" "w' = io_answered k c r rest ?w1"
      using Cons.hyps(1) by blast
    have "io_replies w = replicate (Suc k) (Fail EINTR) @ r # rest"
      using k(1) Cons.hyps(2) [symmetric] True by simp
    moreover have "io_answered k c r rest ?w1 = io_answered (Suc k) c r rest w"
      by (cases r) (simp_all add: io_answered_def replicate_app_Cons_same)
    ultimately show ?thesis using k by blast
  qed
qed

lemma RESTARTABLE_statx:
  "statx_replies w = replicate k (Fail EINTR) @ r # rest \<Longrightarrow> r \<noteq> Fail EINTR \<Longrightarrow>
   RESTARTABLE (call_statx d p f m) w = Some (statx_retval r, statx_answered k (Statx d p f m) r rest w)"
proof (induction k arbitrary: w)
  case 0
  then show ?case
    by (subst RESTARTABLE.simps)
       (cases r; simp add: call_statx_def statx_retval_def statx_answered_def reported_def)
next
  case (Suc k)
  let ?w1 = "w\<lparr>errno := EINTR, statx_replies := replicate k (Fail EINTR) @ r # rest,
                 trace := trace w @ [Kernel (Statx d p f m) (Some EINTR)]\<rparr>"
  have step: "RESTARTABLE (call_statx d p f m) w = RESTARTABLE (call_statx d p f m) ?w1"
    using Suc.prems(1) by (subst RESTARTABLE.simps) (simp add: call_statx_def)
  have "RESTARTABLE (call_statx d p f m) ?w1 = Some (statx_retval r, statx_answered k (Statx d p f m) r rest ?w1)"
    using Suc.prems(2) by (intro Suc.IH) simp_all
  moreover have "statx_answered k (Statx d p f m) r rest ?w1 = statx_answered (Suc k) (Statx d p f m) r rest w"
    by (cases r) (simp_all add: statx_answered_def replicate_app_Cons_same)
  ultimately show ?case using step by simp
qed

lemma RESTARTABLE_statx_Some:
  "RESTARTABLE (call_statx d p f m) w = Some (n, w') \<Longrightarrow>
   \<exists>k r rest. statx_replies w = replicate k (Fail EINTR) @ r # rest \<and> r \<noteq> Fail EINTR \<and>
     n = statx_retval r \<and> w' = statx_answered k (Statx d p f m) r rest w"
proof (induction "statx_replies w" arbitrary: w)
  case Nil
  then show ?case by (subst (asm) RESTARTABLE.simps) (simp add: call_statx_def)
next
  case (Cons a rs)
  let ?c = "Statx d p f m"
  show ?case
  proof (cases "a = Fail EINTR")
    case False
    have "statx_replies w = replicate 0 (Fail EINTR) @ a # rs" using Cons.hyps(2) by simp
    from RESTARTABLE_statx [OF this False, of d p f m] Cons.prems
    have "n = statx_retval a \<and> w' = statx_answered 0 ?c a rs w" by simp
    with False \<open>statx_replies w = replicate 0 (Fail EINTR) @ a # rs\<close> show ?thesis by blast
  next
    case True
    let ?w1 = "w\<lparr>errno := EINTR, statx_replies := rs, trace := trace w @ [Kernel ?c (Some EINTR)]\<rparr>"
    have "RESTARTABLE (call_statx d p f m) w = RESTARTABLE (call_statx d p f m) ?w1"
      using Cons.hyps(2) [symmetric] True by (subst RESTARTABLE.simps) (simp add: call_statx_def)
    with Cons.prems have "RESTARTABLE (call_statx d p f m) ?w1 = Some (n, w')" by simp
    moreover have "rs = statx_replies ?w1" by simp
    ultimately obtain k r rest where
      k: "statx_replies ?w1 = replicate k (Fail EINTR) @ r # rest" "r \<noteq> Fail EINTR"
         "n = statx_retval r" "w' = statx_answered k ?c r rest ?w1"
      using Cons.hyps(1) by blast
    have "statx_replies w = replicate (Suc k) (Fail EINTR) @ r # rest"
      using k(1) Cons.hyps(2) [symmetric] True by simp
    moreover have "statx_answered k ?c r rest ?w1 = statx_answered (Suc k) ?c r rest w"
      by (cases r) (simp_all add: statx_answered_def replicate_app_Cons_same)
    ultimately show ?thesis using k by blast
  qed
qed

section \<open>The stat functions\<close>

lemma statx_wrapper_call:
  "statx_wrapper d p f m fs =
   call_statx d p (if fs = NO_FOLLOW_SYMLINK then f OR AT_SYMLINK_NOFOLLOW else f) m"
  by (rule ext) (simp add: statx_wrapper_def)

lemma statx0_total:
  assumes "my_statx_func caps \<noteq> NULL"
      and "statx_replies w = replicate k (Fail EINTR) @ r # rest" and "r \<noteq> Fail EINTR"
  shows "Java_sun_nio_fs_LinuxNativeDispatcher_statx0 caps p a fl w =
         Some (case r of Ok buf \<Rightarrow> 0 | Fail e \<Rightarrow> e,
               case r of Ok buf \<Rightarrow> copy_statx_attributes buf a | Fail e \<Rightarrow> a,
               statx_answered k (statx0_call p fl) r rest w)"
proof -
  have "RESTARTABLE (statx_wrapper AT_FDCWD (Path_at p) AT_STATX_SYNC_AS_STAT STATX_ALL
          (if fl = JNI_FALSE then NO_FOLLOW_SYMLINK else FOLLOW_SYMLINK)) w =
        Some (statx_retval r, statx_answered k (statx0_call p fl) r rest w)"
    unfolding statx_wrapper_call
    using RESTARTABLE_statx [OF assms(2,3)]
    by (simp add: statx0_call_def AT_FDCWD_def AT_STATX_SYNC_AS_STAT_def STATX_ALL_def
          STATX_BTIME_def STATX_BASIC_STATS_def JNI_FALSE_def NO_FOLLOW_SYMLINK_def
          FOLLOW_SYMLINK_def AT_SYMLINK_NOFOLLOW_def)
  then show ?thesis
    using assms(1)
    by (cases r)
       (simp_all add: Java_sun_nio_fs_LinuxNativeDispatcher_statx0_def Let_def statx_retval_def
          statx_answered_def)
qed

lemma statxfd0_total:
  assumes "my_statx_func caps \<noteq> NULL"
      and "statx_replies w = replicate k (Fail EINTR) @ r # rest" and "r \<noteq> Fail EINTR"
  shows "Java_sun_nio_fs_LinuxNativeDispatcher_statxfd0 caps fd a w =
         Some (case r of Ok buf \<Rightarrow> 0 | Fail e \<Rightarrow> e,
               case r of Ok buf \<Rightarrow> copy_statx_attributes buf a | Fail e \<Rightarrow> a,
               statx_answered k (statxfd0_call fd) r rest w)"
proof -
  have "RESTARTABLE (statx_wrapper fd Empty_string (AT_EMPTY_PATH OR AT_STATX_SYNC_AS_STAT) STATX_ALL
          FOLLOW_SYMLINK) w =
        Some (statx_retval r, statx_answered k (statxfd0_call fd) r rest w)"
    unfolding statx_wrapper_call
    using RESTARTABLE_statx [OF assms(2,3)]
    by (simp add: statxfd0_call_def AT_EMPTY_PATH_def AT_STATX_SYNC_AS_STAT_def STATX_ALL_def
          STATX_BTIME_def STATX_BASIC_STATS_def NO_FOLLOW_SYMLINK_def
          FOLLOW_SYMLINK_def AT_SYMLINK_NOFOLLOW_def)
  then show ?thesis
    using assms(1)
    by (cases r)
       (simp_all add: Java_sun_nio_fs_LinuxNativeDispatcher_statxfd0_def Let_def statx_retval_def
          statx_answered_def)
qed

section \<open>One iteration of each loop\<close>

lemma copy_file_range_loop_fatal:
  "RESTARTABLE (call_copy_file_range src dst count 0) w = Some (n, w1) \<Longrightarrow> n < 0 \<Longrightarrow>
   \<not> (errno w1 = EINVAL \<or> errno w1 = ENOSYS \<or> errno w1 = EXDEV) \<Longrightarrow>
   copy_file_range_loop dst src cancel count w =
     Some (Return IOS_THROWN, JNU_ThrowIOExceptionWithLastError ''Copy failed'' w1)"
  by (subst copy_file_range_loop.simps) simp

lemma copy_file_range_loop_cancelled:
  "RESTARTABLE (call_copy_file_range src dst count 0) w = Some (n, w1) \<Longrightarrow>
   0 \<le> n \<or> errno w1 = EINVAL \<or> errno w1 = ENOSYS \<or> errno w1 = EXDEV \<Longrightarrow>
   cancel_requested cancel w1 = Some (True, w2) \<Longrightarrow>
   copy_file_range_loop dst src cancel count w =
     Some (Return IOS_THROWN, throwUnixException ECANCELED w2)"
  by (subst copy_file_range_loop.simps) auto

lemma copy_file_range_loop_again:
  "RESTARTABLE (call_copy_file_range src dst count 0) w = Some (n, w1) \<Longrightarrow> 0 < n \<Longrightarrow>
   cancel_requested cancel w1 = Some (False, w2) \<Longrightarrow>
   copy_file_range_loop dst src cancel count w = copy_file_range_loop dst src cancel count w2"
  by (subst copy_file_range_loop.simps) simp

lemma copy_file_range_loop_end:
  "RESTARTABLE (call_copy_file_range src dst count 0) w = Some (n, w1) \<Longrightarrow>
   n = 0 \<or> n < 0 \<and> (errno w1 = EINVAL \<or> errno w1 = ENOSYS \<or> errno w1 = EXDEV) \<Longrightarrow>
   cancel_requested cancel w1 = Some (False, w2) \<Longrightarrow>
   copy_file_range_loop dst src cancel count w = Some (Loop_end n, w2)"
  by (subst copy_file_range_loop.simps) auto

lemma sendfile_loop_failed:
  "RESTARTABLE (sendfile64 dst src count) w = Some (n, w1) \<Longrightarrow> n < 0 \<Longrightarrow>
   sendfile_loop dst src cancel count w =
     (if errno w1 = EAGAIN then Some (Return IOS_UNAVAILABLE, w1)
      else if errno w1 = EINVAL \<or> errno w1 = ENOSYS then Some (Return IOS_UNSUPPORTED_CASE, w1)
      else Some (Return IOS_THROWN, throwUnixException (errno w1) w1))"
  by (subst sendfile_loop.simps) simp

lemma sendfile_loop_cancelled:
  "RESTARTABLE (sendfile64 dst src count) w = Some (n, w1) \<Longrightarrow> 0 \<le> n \<Longrightarrow>
   cancel_requested cancel w1 = Some (True, w2) \<Longrightarrow>
   sendfile_loop dst src cancel count w = Some (Return IOS_THROWN, throwUnixException ECANCELED w2)"
  by (subst sendfile_loop.simps) simp

lemma sendfile_loop_again:
  "RESTARTABLE (sendfile64 dst src count) w = Some (n, w1) \<Longrightarrow> 0 < n \<Longrightarrow>
   cancel_requested cancel w1 = Some (False, w2) \<Longrightarrow>
   sendfile_loop dst src cancel count w = sendfile_loop dst src cancel count w2"
  by (subst sendfile_loop.simps) simp

lemma sendfile_loop_end:
  "RESTARTABLE (sendfile64 dst src count) w = Some (n, w1) \<Longrightarrow> n = 0 \<Longrightarrow>
   cancel_requested cancel w1 = Some (False, w2) \<Longrightarrow>
   sendfile_loop dst src cancel count w = Some (Loop_end n, w2)"
  by (subst sendfile_loop.simps) simp

lemma reaches_continue:
  "reaches caps dst src cancel w0 t w \<Longrightarrow>
   Java_sun_nio_fs_LinuxNativeDispatcher_directCopy0 caps dst src cancel w0 =
   continue_from t dst src cancel w"
proof (induction rule: reaches.induct)
  case enter_a
  then show ?case
    by (simp add: Java_sun_nio_fs_LinuxNativeDispatcher_directCopy0_def continue_from_def Let_def)
next
  case enter_b
  then show ?case
    by (simp add: Java_sun_nio_fs_LinuxNativeDispatcher_directCopy0_def continue_from_def Let_def)
next
  case (again_a w n w1 w2)
  then show ?case
    by (simp add: continue_from_def copy_file_range_loop_again)
next
  case (fall_through w n w1 w2)
  from fall_through.hyps(2-5) have
    "copy_file_range_loop dst src cancel (chunk_size cancel) w = Some (Loop_end n, w2)"
    by (intro copy_file_range_loop_end) auto
  with fall_through show ?case by (simp add: continue_from_def)
next
  case (again_b w n w1 w2)
  then show ?case
    by (simp add: continue_from_def tier_b_def sendfile_loop_again)
qed

lemma cancel_requested_polled:
  "cancel \<noteq> 0 \<longrightarrow> cancel_reads w = v # vs \<Longrightarrow>
   cancel_requested cancel w = Some (cancel \<noteq> 0 \<and> v \<noteq> 0, polled cancel v vs w)"
  by (simp add: cancel_requested_def polled_def)

lemma chunk_answered:
  "io_replies w = replicate k (Fail EINTR) @ r # rest \<Longrightarrow> r \<noteq> Fail EINTR \<Longrightarrow>
   RESTARTABLE (call_copy_file_range src dst count 0) w =
     Some (retval r, io_answered k (chunk_call Tier_A dst src count) r rest w) \<and>
   RESTARTABLE (sendfile64 dst src count) w =
     Some (retval r, io_answered k (chunk_call Tier_B dst src count) r rest w)"
  unfolding call_copy_file_range_def sendfile64_def chunk_call_def
  by (simp add: RESTARTABLE_io)

lemma io_answered_simps [simp]:
  "errno (io_answered k c (Fail e) rest w) = e"
  "io_replies (io_answered k c r rest w) = rest"
  "cancel_reads (io_answered k c r rest w) = cancel_reads w"
  "pending (io_answered k c r rest w) = pending w"
  "statx_replies (io_answered k c r rest w) = statx_replies w"
  "trace (io_answered k c r rest w) = trace w @ replicate k (Kernel c (Some EINTR)) @ [Kernel c (reported r)]"
  by (simp_all add: io_answered_def)

lemma polled_simps [simp]:
  "errno (polled cancel v vs w) = errno w"
  "io_replies (polled cancel v vs w) = io_replies w"
  "pending (polled cancel v vs w) = pending w"
  "trace (polled cancel v vs w) = trace w @ (if cancel = 0 then [] else [Read_cancel v])"
  "cancel_reads (polled cancel v vs w) = (if cancel = 0 then cancel_reads w else vs)"
  by (simp_all add: polled_def)

lemma retval_simps [simp]: "retval (Ok n) = int n" "retval (Fail e) = - 1"
  by (simp_all add: retval_def)

lemma reported_simps [simp]: "reported (Ok n) = None" "reported (Fail e) = Some e"
  by (simp_all add: reported_def)

lemma errno_distinct [simp]:
  "EINVAL \<noteq> EINTR" "ENOSYS \<noteq> EINTR" "EXDEV \<noteq> EINTR" "EAGAIN \<noteq> EINTR" "ECANCELED \<noteq> EINTR"
  "EINTR \<noteq> EINVAL" "EINTR \<noteq> ENOSYS" "EINTR \<noteq> EXDEV" "EINTR \<noteq> EAGAIN" "EINTR \<noteq> ECANCELED"
  "EAGAIN \<noteq> EINVAL" "EAGAIN \<noteq> ENOSYS" "EINVAL \<noteq> EAGAIN" "ENOSYS \<noteq> EAGAIN"
  by (simp_all add: EINVAL_def EINTR_def ENOSYS_def EXDEV_def EAGAIN_def ECANCELED_def)

section \<open>The events of a whole run\<close>

lemma surfaced_iff:
  "surfaced before after =
     (after = before \<or>
      (\<exists>e. e \<noteq> EINTR \<and>
           (after = Some (UnixException e) \<or> (\<exists>msg. after = Some (IOExceptionWithLastError e msg)))))"
  unfolding surfaced_def by (auto split: option.splits throwable.splits)

lemma run_ok_iff:
  "run_ok count w w' =
     (\<exists>evs. trace w' = trace w @ evs \<and> restarted evs \<and> list_all (requests count) evs \<and>
            surfaced (pending w) (pending w'))"
proof
  assume "run_ok count w w'"
  then have "trace w' = trace w @ drop (length (trace w)) (trace w')"
    unfolding run_ok_def by (metis append_take_drop_id)
  with \<open>run_ok count w w'\<close> show "\<exists>evs. trace w' = trace w @ evs \<and> restarted evs \<and>
      list_all (requests count) evs \<and> surfaced (pending w) (pending w')"
    unfolding run_ok_def by blast
next
  assume "\<exists>evs. trace w' = trace w @ evs \<and> restarted evs \<and> list_all (requests count) evs \<and>
            surfaced (pending w) (pending w')"
  then show "run_ok count w w'"
    unfolding run_ok_def by auto
qed

lemma restarted_append: "restarted a \<Longrightarrow> restarted b \<Longrightarrow> restarted (a @ b)"
  by (induction a rule: restarted.induct) (auto split: list.splits event.splits)

lemma restarted_chunk:
  "res \<noteq> Some EINTR \<Longrightarrow> restarted (replicate k (Kernel c (Some EINTR)) @ [Kernel c res])"
proof (induction k)
  case 0
  then show ?case by simp
next
  case (Suc k)
  then show ?case by (cases k) simp_all
qed

lemma surfaced_refl: "surfaced p p"
  by (simp add: surfaced_iff)

lemma run_ok_refl: "run_ok count w w"
  by (simp add: run_ok_iff surfaced_refl)

lemma run_ok_trans:
  "run_ok count w w1 \<Longrightarrow> trace w2 = trace w1 @ evs \<Longrightarrow> restarted evs \<Longrightarrow>
   list_all (requests count) evs \<Longrightarrow> pending w1 = pending w \<Longrightarrow>
   surfaced (pending w1) (pending w2) \<Longrightarrow> run_ok count w w2"
  unfolding run_ok_iff
  by (auto simp add: restarted_append)

lemma run_ok_then:
  "run_ok count w w1 \<Longrightarrow> pending w1 = pending w \<Longrightarrow> run_ok count w1 w2 \<Longrightarrow> run_ok count w w2"
  unfolding run_ok_iff
  by (auto simp add: restarted_append)

lemma io_answered_run:
  assumes "r \<noteq> Fail EINTR" and "requests count (Kernel c None)"
  shows "run_ok count w (io_answered k c r rest w) \<and> pending (io_answered k c r rest w) = pending w"
proof -
  have "restarted (replicate k (Kernel c (Some EINTR)) @ [Kernel c (reported r)])"
    using assms(1) by (intro restarted_chunk) (cases r; simp)
  moreover have "list_all (requests count) (replicate k (Kernel c (Some EINTR)) @ [Kernel c (reported r)])"
    using assms(2) by (cases c) (simp_all add: list_all_iff)
  ultimately show ?thesis
    unfolding run_ok_iff by (auto simp add: surfaced_refl)
qed

lemma cancel_requested_run:
  assumes "cancel_requested cancel w1 = Some (b, w2)"
  shows "run_ok count w1 w2 \<and> pending w2 = pending w1 \<and> io_replies w2 = io_replies w1 \<and>
         errno w2 = errno w1"
  using assms unfolding run_ok_iff cancel_requested_def
  by (auto split: if_splits list.splits simp add: surfaced_refl)

lemma throw_run:
  "e \<noteq> EINTR \<Longrightarrow> run_ok count w (throwUnixException e w)"
  "errno w \<noteq> EINTR \<Longrightarrow> run_ok count w (JNU_ThrowIOExceptionWithLastError ''Copy failed'' w)"
  unfolding run_ok_iff surfaced_iff throwUnixException_def JNU_ThrowIOExceptionWithLastError_def
  by auto

lemma run_ok_throw:
  "run_ok count w w2 \<Longrightarrow> pending w2 = pending w \<Longrightarrow> e \<noteq> EINTR \<Longrightarrow>
   run_ok count w (throwUnixException e w2)"
  by (rule run_ok_then [OF _ _ throw_run(1)])

lemma run_ok_throw_io:
  "run_ok count w w2 \<Longrightarrow> pending w2 = pending w \<Longrightarrow> errno w2 \<noteq> EINTR \<Longrightarrow>
   run_ok count w (JNU_ThrowIOExceptionWithLastError ''Copy failed'' w2)"
  by (rule run_ok_then [OF _ _ throw_run(2)])

lemma copy_file_range_loop_run:
  "copy_file_range_loop dst src cancel count w = Some (f, w') \<Longrightarrow>
   run_ok count w w' \<and> returns_ok f"
proof (induction "length (io_replies w)" arbitrary: w rule: less_induct)
  case less
  let ?c = "Copy_file_range src dst count 0"
  from less.prems obtain n w1 where
    r: "RESTARTABLE (call_copy_file_range src dst count 0) w = Some (n, w1)"
    by (subst (asm) copy_file_range_loop.simps) (auto split: option.splits)
  then obtain k a rest where
    a: "io_replies w = replicate k (Fail EINTR) @ a # rest" "a \<noteq> Fail EINTR"
       "n = retval a" "w1 = io_answered k ?c a rest w"
    unfolding call_copy_file_range_def using RESTARTABLE_io_Some by blast
  have ok1: "run_ok count w w1" "pending w1 = pending w"
    using io_answered_run [OF a(2), where count = count and c = "?c" and k = k and rest = rest and w = w] a(4) by simp_all
  have e1: "n < 0 \<Longrightarrow> errno w1 \<noteq> EINTR"
    using a(2,3,4) by (cases a) simp_all
  show ?case
  proof (cases "n < 0 \<and> \<not> (errno w1 = EINVAL \<or> errno w1 = ENOSYS \<or> errno w1 = EXDEV)")
    case True
    with less.prems r have
      "f = Return IOS_THROWN" "w' = JNU_ThrowIOExceptionWithLastError ''Copy failed'' w1"
      by (simp_all add: copy_file_range_loop_fatal)
    with ok1 e1 True show ?thesis
      by (simp add: run_ok_throw_io returns_ok_def)
  next
    case False
    with less.prems r obtain b w2 where p: "cancel_requested cancel w1 = Some (b, w2)"
      by (subst (asm) copy_file_range_loop.simps) (auto split: option.splits)
    note ok2 = cancel_requested_run [OF p, of count]
    have ok12: "run_ok count w w2" "pending w2 = pending w"
      using ok1 ok2 by (auto intro: run_ok_then)
    show ?thesis
    proof (cases b)
      case True
      have "0 \<le> n \<or> errno w1 = EINVAL \<or> errno w1 = ENOSYS \<or> errno w1 = EXDEV"
        using False by auto
      from copy_file_range_loop_cancelled [OF r this, of cancel w2] p True less.prems have
        "f = Return IOS_THROWN" "w' = throwUnixException ECANCELED w2"
        by simp_all
      with ok12 show ?thesis
        by (simp add: run_ok_throw returns_ok_def)
    next
      case nb: False
      show ?thesis
      proof (cases "0 < n")
        case True
        with less.prems r p nb have
          "copy_file_range_loop dst src cancel count w2 = Some (f, w')"
          by (simp add: copy_file_range_loop_again)
        moreover have "length (io_replies w2) < length (io_replies w)"
          using ok2 a(1,4) by simp
        ultimately have "run_ok count w2 w' \<and> returns_ok f"
          by (rule less.hyps [rotated])
        with ok12 show ?thesis by (auto intro: run_ok_then)
      next
        case False
        with less.prems r p nb \<open>\<not> (n < 0 \<and> \<not> (errno w1 = EINVAL \<or> errno w1 = ENOSYS \<or> errno w1 = EXDEV))\<close>
        have "n = 0 \<or> n < 0 \<and> (errno w1 = EINVAL \<or> errno w1 = ENOSYS \<or> errno w1 = EXDEV)"
          by auto
        from copy_file_range_loop_end [OF r this, of cancel w2] p nb less.prems
        have "f = Loop_end n" "w' = w2"
          by simp_all
        with ok12 False show ?thesis by (simp add: returns_ok_def)
      qed
    qed
  qed
qed

lemma sendfile_loop_run:
  "sendfile_loop dst src cancel count w = Some (f, w') \<Longrightarrow>
   run_ok count w w' \<and> returns_ok f"
proof (induction "length (io_replies w)" arbitrary: w rule: less_induct)
  case less
  let ?c = "Sendfile64 dst src count"
  from less.prems obtain n w1 where
    r: "RESTARTABLE (sendfile64 dst src count) w = Some (n, w1)"
    by (subst (asm) sendfile_loop.simps) (auto split: option.splits)
  then obtain k a rest where
    a: "io_replies w = replicate k (Fail EINTR) @ a # rest" "a \<noteq> Fail EINTR"
       "n = retval a" "w1 = io_answered k ?c a rest w"
    unfolding sendfile64_def using RESTARTABLE_io_Some by blast
  have ok1: "run_ok count w w1" "pending w1 = pending w"
    using io_answered_run [OF a(2), where count = count and c = "?c" and k = k and rest = rest and w = w] a(4) by simp_all
  have e1: "n < 0 \<Longrightarrow> errno w1 \<noteq> EINTR"
    using a(2,3,4) by (cases a) simp_all
  show ?case
  proof (cases "n < 0")
    case True
    from sendfile_loop_failed [OF r True, of cancel] less.prems ok1 e1 [OF True]
    show ?thesis
      by (auto split: if_splits simp add: run_ok_throw returns_ok_def)
  next
    case False
    with less.prems r obtain b w2 where p: "cancel_requested cancel w1 = Some (b, w2)"
      by (subst (asm) sendfile_loop.simps) (auto split: option.splits)
    note ok2 = cancel_requested_run [OF p, of count]
    have ok12: "run_ok count w w2" "pending w2 = pending w"
      using ok1 ok2 by (auto intro: run_ok_then)
    show ?thesis
    proof (cases b)
      case True
      have "0 \<le> n" using False by simp
      from sendfile_loop_cancelled [OF r this, of cancel w2] p True less.prems have
        "f = Return IOS_THROWN" "w' = throwUnixException ECANCELED w2"
        by simp_all
      with ok12 show ?thesis
        by (simp add: run_ok_throw returns_ok_def)
    next
      case nb: False
      show ?thesis
      proof (cases "0 < n")
        case True
        with less.prems r p nb have
          "sendfile_loop dst src cancel count w2 = Some (f, w')"
          by (simp add: sendfile_loop_again)
        moreover have "length (io_replies w2) < length (io_replies w)"
          using ok2 a(1,4) by simp
        ultimately have "run_ok count w2 w' \<and> returns_ok f"
          by (rule less.hyps [rotated])
        with ok12 show ?thesis by (auto intro: run_ok_then)
      next
        case False
        with less.prems r p nb \<open>\<not> n < 0\<close>
        have "f = Loop_end n" "w' = w2"
          by (simp_all add: sendfile_loop_end)
        with ok12 False show ?thesis by (simp add: returns_ok_def)
      qed
    qed
  qed
qed

lemma surfaced_trans: "surfaced p p1 \<Longrightarrow> surfaced p1 p2 \<Longrightarrow> surfaced p p2"
  unfolding surfaced_iff by auto

lemma run_ok_compose: "run_ok count w w1 \<Longrightarrow> run_ok count w1 w2 \<Longrightarrow> run_ok count w w2"
  unfolding run_ok_iff
  by (auto simp add: restarted_append intro: surfaced_trans)

lemma tier_b_run:
  assumes "tier_b dst src cancel count w = Some (r, w')"
  shows "run_ok count w w' \<and> status_ok r"
proof -
  from assms obtain f where s: "sendfile_loop dst src cancel count w = Some (f, w')"
    and f: "f = Return r \<or> (\<exists>n. f = Loop_end n) \<and> r = 0"
    unfolding tier_b_def by (auto split: option.splits flow.splits)
  from sendfile_loop_run [OF s] f show ?thesis
    by (auto simp add: returns_ok_def status_ok_def)
qed

lemma directCopy0_run:
  assumes "Java_sun_nio_fs_LinuxNativeDispatcher_directCopy0 caps dst src cancel w = Some (r, w')"
  shows "run_ok (chunk_size cancel) w w' \<and> status_ok r"
proof (cases "my_copy_file_range_func caps = NULL")
  case True
  with assms have "tier_b dst src cancel (chunk_size cancel) w = Some (r, w')"
    by (simp add: Java_sun_nio_fs_LinuxNativeDispatcher_directCopy0_def Let_def)
  then show ?thesis by (rule tier_b_run)
next
  case False
  with assms obtain f w1 where
    l: "copy_file_range_loop dst src cancel (chunk_size cancel) w = Some (f, w1)"
    and rest: "(case f of Return x \<Rightarrow> Some (x, w1)
                | Loop_end b \<Rightarrow> if b = 0 then Some (0, w1)
                                else tier_b dst src cancel (chunk_size cancel) w1) = Some (r, w')"
    by (auto simp add: Java_sun_nio_fs_LinuxNativeDispatcher_directCopy0_def Let_def
        split: option.splits)
  note a = copy_file_range_loop_run [OF l]
  show ?thesis
  proof (cases f)
    case (Return x)
    with rest a show ?thesis by (auto simp add: returns_ok_def status_ok_def)
  next
    case (Loop_end b)
    show ?thesis
    proof (cases "b = 0")
      case True
      with Loop_end rest a show ?thesis by (auto simp add: status_ok_def)
    next
      case False
      with Loop_end rest have "tier_b dst src cancel (chunk_size cancel) w1 = Some (r, w')" by simp
      from tier_b_run [OF this] a show ?thesis by (auto intro: run_ok_compose)
    qed
  qed
qed

lemma reaches_without_range_copy:
  "reaches caps dst src cancel w0 t w \<Longrightarrow> my_copy_file_range_func caps = NULL \<Longrightarrow> t = Tier_B"
  by (induction rule: reaches.induct) simp_all

lemma status_distinct:
  "IOS_UNSUPPORTED_CASE \<noteq> IOS_UNSUPPORTED" "\<not> status_ok IOS_UNSUPPORTED" "\<not> status_ok EINTR"
  by (simp_all add: status_ok_def IOS_UNSUPPORTED_CASE_def IOS_UNSUPPORTED_def IOS_THROWN_def
        IOS_UNAVAILABLE_def EINTR_def)

lemma statx_answered_simps [simp]:
  "errno (statx_answered k c (Fail e) rest w) = e"
  "statx_replies (statx_answered k c r rest w) = rest"
  "pending (statx_answered k c r rest w) = pending w"
  "io_replies (statx_answered k c r rest w) = io_replies w"
  "statx_buf (statx_answered k c (Ok buf) rest w) = Some buf"
  "trace (statx_answered k c r rest w) = trace w @ replicate k (Kernel c (Some EINTR)) @ [Kernel c (reported r)]"
  by (simp_all add: statx_answered_def)

lemma statx0_Some:
  assumes "Java_sun_nio_fs_LinuxNativeDispatcher_statx0 caps p a fl w = Some (ret, a', w')"
      and "my_statx_func caps \<noteq> NULL"
  shows "\<exists>k r rest. statx_replies w = replicate k (Fail EINTR) @ r # rest \<and> r \<noteq> Fail EINTR"
proof -
  from assms obtain n w1 where
    "RESTARTABLE (statx_wrapper AT_FDCWD (Path_at p) AT_STATX_SYNC_AS_STAT STATX_ALL
       (if fl = JNI_FALSE then NO_FOLLOW_SYMLINK else FOLLOW_SYMLINK)) w = Some (n, w1)"
    by (auto simp add: Java_sun_nio_fs_LinuxNativeDispatcher_statx0_def Let_def split: option.splits)
  then show ?thesis
    unfolding statx_wrapper_call using RESTARTABLE_statx_Some by blast
qed

lemma statxfd0_Some:
  assumes "Java_sun_nio_fs_LinuxNativeDispatcher_statxfd0 caps fd a w = Some (ret, a', w')"
      and "my_statx_func caps \<noteq> NULL"
  shows "\<exists>k r rest. statx_replies w = replicate k (Fail EINTR) @ r # rest \<and> r \<noteq> Fail EINTR"
proof -
  from assms obtain n w1 where
    "RESTARTABLE (statx_wrapper fd Empty_string (AT_EMPTY_PATH OR AT_STATX_SYNC_AS_STAT) STATX_ALL
       FOLLOW_SYMLINK) w = Some (n, w1)"
    by (auto simp add: Java_sun_nio_fs_LinuxNativeDispatcher_statxfd0_def Let_def split: option.splits)
  then show ?thesis
    unfolding statx_wrapper_call using RESTARTABLE_statx_Some by blast
qed

lemma statx_unavailable:
  "my_statx_func caps = NULL \<Longrightarrow>
   Java_sun_nio_fs_LinuxNativeDispatcher_statx0 caps p a fl w = Some (0, a, w) \<and>
   Java_sun_nio_fs_LinuxNativeDispatcher_statxfd0 caps fd a w = Some (0, a, w)"
  by (simp add: Java_sun_nio_fs_LinuxNativeDispatcher_statx0_def
        Java_sun_nio_fs_LinuxNativeDispatcher_statxfd0_def Let_def)

lemma quiet_iff:
  "quiet w w' = (\<exists>evs. trace w' = trace w @ evs \<and> \<not> list_ex cancel_seen evs)"
  unfolding quiet_def by (metis append_eq_conv_conj append_take_drop_id)

lemma cancel_ok_iff:
  "cancel_ok w c w' = (\<exists>evs. trace w' = trace w @ evs \<and> cancel_ends evs c)"
  unfolding cancel_ok_def by (metis append_eq_conv_conj append_take_drop_id)

lemma quiet_refl: "quiet w w"
  by (simp add: quiet_iff)

lemma quiet_trans: "quiet w w1 \<Longrightarrow> quiet w1 w2 \<Longrightarrow> quiet w w2"
  unfolding quiet_iff by auto

lemma quiet_cancel_ok: "quiet w w' \<Longrightarrow> cancel_ok w c w'"
  unfolding quiet_iff cancel_ok_iff cancel_ends_def by auto

lemma cancel_ends_append:
  assumes a: "\<not> list_ex cancel_seen a" and b: "cancel_ends b c"
  shows "cancel_ends (a @ b) c"
proof (cases "list_ex cancel_seen b")
  case False
  with a show ?thesis by (auto simp add: cancel_ends_def list_ex_iff)
next
  case True
  then have ne: "b \<noteq> []" by auto
  from True b have "c \<and> cancel_seen (last b) \<and> \<not> list_ex cancel_seen (butlast b)"
    by (simp add: cancel_ends_def)
  with a ne True show ?thesis
    by (auto simp add: cancel_ends_def butlast_append list_ex_iff)
qed

lemma quiet_then: "quiet w w1 \<Longrightarrow> cancel_ok w1 c w2 \<Longrightarrow> cancel_ok w c w2"
  unfolding quiet_iff cancel_ok_iff
  by (auto intro: cancel_ends_append)

lemma io_answered_quiet: "quiet w (io_answered k c r rest w)"
  unfolding quiet_iff by (simp add: list_ex_iff)

lemma cancel_requested_quiet:
  "cancel_requested cancel w1 = Some (False, w2) \<Longrightarrow> quiet w1 w2"
  unfolding quiet_iff cancel_requested_def
  by (auto split: if_splits list.splits)

lemma cancel_requested_seen:
  "cancel_requested cancel w1 = Some (True, w2) \<Longrightarrow>
   \<exists>v. v \<noteq> 0 \<and> trace w2 = trace w1 @ [Read_cancel v]"
  unfolding cancel_requested_def
  by (auto split: if_splits list.splits)

lemma cancelled_ok:
  assumes "quiet w w1" and "cancel_requested cancel w1 = Some (True, w2)"
  shows "cancel_ok w True (throwUnixException e w2)"
proof -
  from cancel_requested_seen [OF assms(2)] obtain v where
    v: "v \<noteq> 0" "trace w2 = trace w1 @ [Read_cancel v]" by blast
  then have "cancel_ok w1 True (throwUnixException e w2)"
    unfolding cancel_ok_iff cancel_ends_def by (simp add: throwUnixException_def)
  with assms(1) show ?thesis by (rule quiet_then)
qed

lemma throw_quiet:
  "quiet w (throwUnixException e w)" "quiet w (JNU_ThrowIOExceptionWithLastError m w)"
  unfolding quiet_iff by (simp_all add: throwUnixException_def JNU_ThrowIOExceptionWithLastError_def)

lemma copy_file_range_loop_cancel:
  "copy_file_range_loop dst src cancel count w = Some (f, w') \<Longrightarrow>
   cancel_ok w (flow_cancelled f w') w' \<and> (\<forall>n. f = Loop_end n \<longrightarrow> quiet w w')"
proof (induction "length (io_replies w)" arbitrary: w rule: less_induct)
  case less
  let ?c = "Copy_file_range src dst count 0"
  from less.prems obtain n w1 where
    r: "RESTARTABLE (call_copy_file_range src dst count 0) w = Some (n, w1)"
    by (subst (asm) copy_file_range_loop.simps) (auto split: option.splits)
  then obtain k a rest where
    a: "io_replies w = replicate k (Fail EINTR) @ a # rest" "a \<noteq> Fail EINTR"
       "n = retval a" "w1 = io_answered k ?c a rest w"
    unfolding call_copy_file_range_def using RESTARTABLE_io_Some by blast
  have q1: "quiet w w1" using a(4) io_answered_quiet by simp
  show ?case
  proof (cases "n < 0 \<and> \<not> (errno w1 = EINVAL \<or> errno w1 = ENOSYS \<or> errno w1 = EXDEV)")
    case True
    with less.prems r have
      "f = Return IOS_THROWN" "w' = JNU_ThrowIOExceptionWithLastError ''Copy failed'' w1"
      by (simp_all add: copy_file_range_loop_fatal)
    with q1 throw_quiet(2) [of w1 "''Copy failed''"] show ?thesis
      by (auto intro: quiet_cancel_ok quiet_trans)
  next
    case False
    with less.prems r obtain b w2 where p: "cancel_requested cancel w1 = Some (b, w2)"
      by (subst (asm) copy_file_range_loop.simps) (auto split: option.splits)
    show ?thesis
    proof (cases b)
      case True
      have "0 \<le> n \<or> errno w1 = EINVAL \<or> errno w1 = ENOSYS \<or> errno w1 = EXDEV"
        using False by auto
      from copy_file_range_loop_cancelled [OF r this, of cancel w2] p True less.prems have
        fw: "f = Return IOS_THROWN" "w' = throwUnixException ECANCELED w2"
        by simp_all
      from cancelled_ok [OF q1, of cancel w2 ECANCELED] p True
      have "cancel_ok w True w'" using fw by simp
      moreover have "flow_cancelled f w'"
        using fw by (simp add: flow_cancelled_def is_cancelled_def throwUnixException_def)
      ultimately show ?thesis using fw by simp
    next
      case nb: False
      with p have q2: "quiet w1 w2" by (simp add: cancel_requested_quiet)
      with q1 have q12: "quiet w w2" by (rule quiet_trans)
      show ?thesis
      proof (cases "0 < n")
        case True
        with less.prems r p nb have
          "copy_file_range_loop dst src cancel count w2 = Some (f, w')"
          by (simp add: copy_file_range_loop_again)
        moreover have "length (io_replies w2) < length (io_replies w)"
          using cancel_requested_run [OF p] a(1,4) by simp
        ultimately have "cancel_ok w2 (flow_cancelled f w') w' \<and> (\<forall>n. f = Loop_end n \<longrightarrow> quiet w2 w')"
          by (rule less.hyps [rotated])
        with q12 show ?thesis by (auto intro: quiet_then quiet_trans)
      next
        case False
        have "n = 0 \<or> n < 0 \<and> (errno w1 = EINVAL \<or> errno w1 = ENOSYS \<or> errno w1 = EXDEV)"
          using False \<open>\<not> (n < 0 \<and> \<not> (errno w1 = EINVAL \<or> errno w1 = ENOSYS \<or> errno w1 = EXDEV))\<close>
          by auto
        from copy_file_range_loop_end [OF r this, of cancel w2] p nb less.prems
        have "f = Loop_end n" "w' = w2"
          by simp_all
        with q12 show ?thesis by (auto intro: quiet_cancel_ok)
      qed
    qed
  qed
qed

lemma sendfile_loop_cancel:
  "sendfile_loop dst src cancel count w = Some (f, w') \<Longrightarrow>
   cancel_ok w (flow_cancelled f w') w' \<and> (\<forall>n. f = Loop_end n \<longrightarrow> quiet w w')"
proof (induction "length (io_replies w)" arbitrary: w rule: less_induct)
  case less
  let ?c = "Sendfile64 dst src count"
  from less.prems obtain n w1 where
    r: "RESTARTABLE (sendfile64 dst src count) w = Some (n, w1)"
    by (subst (asm) sendfile_loop.simps) (auto split: option.splits)
  then obtain k a rest where
    a: "io_replies w = replicate k (Fail EINTR) @ a # rest" "a \<noteq> Fail EINTR"
       "n = retval a" "w1 = io_answered k ?c a rest w"
    unfolding sendfile64_def using RESTARTABLE_io_Some by blast
  have q1: "quiet w w1" using a(4) io_answered_quiet by simp
  show ?case
  proof (cases "n < 0")
    case True
    from sendfile_loop_failed [OF r True, of cancel] less.prems
    have "quiet w1 w'"
      using throw_quiet(1) [of w1 "errno w1"] by (auto split: if_splits simp add: quiet_refl)
    with q1 have "quiet w w'" by (rule quiet_trans)
    then show ?thesis by (auto intro: quiet_cancel_ok)
  next
    case False
    with less.prems r obtain b w2 where p: "cancel_requested cancel w1 = Some (b, w2)"
      by (subst (asm) sendfile_loop.simps) (auto split: option.splits)
    show ?thesis
    proof (cases b)
      case True
      have "0 \<le> n" using False by simp
      from sendfile_loop_cancelled [OF r this, of cancel w2] p True less.prems have
        fw: "f = Return IOS_THROWN" "w' = throwUnixException ECANCELED w2"
        by simp_all
      from cancelled_ok [OF q1, of cancel w2 ECANCELED] p True
      have "cancel_ok w True w'" using fw by simp
      moreover have "flow_cancelled f w'"
        using fw by (simp add: flow_cancelled_def is_cancelled_def throwUnixException_def)
      ultimately show ?thesis using fw by simp
    next
      case nb: False
      with p have q2: "quiet w1 w2" by (simp add: cancel_requested_quiet)
      with q1 have q12: "quiet w w2" by (rule quiet_trans)
      show ?thesis
      proof (cases "0 < n")
        case True
        with less.prems r p nb have
          "sendfile_loop dst src cancel count w2 = Some (f, w')"
          by (simp add: sendfile_loop_again)
        moreover have "length (io_replies w2) < length (io_replies w)"
          using cancel_requested_run [OF p] a(1,4) by simp
        ultimately have "cancel_ok w2 (flow_cancelled f w') w' \<and> (\<forall>n. f = Loop_end n \<longrightarrow> quiet w2 w')"
          by (rule less.hyps [rotated])
        with q12 show ?thesis by (auto intro: quiet_then quiet_trans)
      next
        case False
        with less.prems r p nb \<open>\<not> n < 0\<close>
        have "f = Loop_end n" "w' = w2"
          by (simp_all add: sendfile_loop_end)
        with q12 show ?thesis by (auto intro: quiet_cancel_ok)
      qed
    qed
  qed
qed

lemma tier_b_cancel:
  assumes "tier_b dst src cancel count w = Some (r, w')"
  shows "cancel_ok w (is_cancelled r w') w'"
proof -
  from assms obtain f where s: "sendfile_loop dst src cancel count w = Some (f, w')"
    and f: "f = Return r \<or> (\<exists>n. f = Loop_end n) \<and> r = 0"
    unfolding tier_b_def by (auto split: option.splits flow.splits)
  from sendfile_loop_cancel [OF s] f show ?thesis
    by (auto simp add: flow_cancelled_def intro: quiet_cancel_ok)
qed

lemma directCopy0_cancel:
  assumes "Java_sun_nio_fs_LinuxNativeDispatcher_directCopy0 caps dst src cancel w = Some (r, w')"
  shows "cancel_ok w (is_cancelled r w') w'"
proof (cases "my_copy_file_range_func caps = NULL")
  case True
  with assms have "tier_b dst src cancel (chunk_size cancel) w = Some (r, w')"
    by (simp add: Java_sun_nio_fs_LinuxNativeDispatcher_directCopy0_def Let_def)
  then show ?thesis by (rule tier_b_cancel)
next
  case False
  with assms obtain f w1 where
    l: "copy_file_range_loop dst src cancel (chunk_size cancel) w = Some (f, w1)"
    and rest: "(case f of Return x \<Rightarrow> Some (x, w1)
                | Loop_end b \<Rightarrow> if b = 0 then Some (0, w1)
                                else tier_b dst src cancel (chunk_size cancel) w1) = Some (r, w')"
    by (auto simp add: Java_sun_nio_fs_LinuxNativeDispatcher_directCopy0_def Let_def
        split: option.splits)
  note a = copy_file_range_loop_cancel [OF l]
  show ?thesis
  proof (cases f)
    case (Return x)
    with rest a show ?thesis by (auto simp add: flow_cancelled_def)
  next
    case (Loop_end b)
    with a have q: "quiet w w1" by simp
    show ?thesis
    proof (cases "b = 0")
      case True
      with Loop_end rest q show ?thesis by (auto intro: quiet_cancel_ok)
    next
      case False
      with Loop_end rest have "tier_b dst src cancel (chunk_size cancel) w1 = Some (r, w')" by simp
      from tier_b_cancel [OF this] q show ?thesis by (rule quiet_then [rotated])
    qed
  qed
qed

lemma reaches_run:
  "reaches caps dst src cancel w0 t w \<Longrightarrow>
   run_ok (chunk_size cancel) w0 w \<and> quiet w0 w \<and> pending w = pending w0"
proof (induction rule: reaches.induct)
  case enter_a
  show ?case by (simp add: run_ok_refl quiet_refl)
next
  case enter_b
  show ?case by (simp add: run_ok_refl quiet_refl)
next
  case (again_a w n w1 w2)
  from again_a.hyps(2) obtain k a rest where
    a: "a \<noteq> Fail EINTR" "w1 = io_answered k (Copy_file_range src dst (chunk_size cancel) 0) a rest w"
    unfolding call_copy_file_range_def using RESTARTABLE_io_Some by blast
  from io_answered_run [OF a(1), where count = "chunk_size cancel"
      and c = "Copy_file_range src dst (chunk_size cancel) 0" and k = k and rest = rest and w = w]
    a(2) cancel_requested_run [OF again_a.hyps(4), of "chunk_size cancel"]
    cancel_requested_quiet [OF again_a.hyps(4)] io_answered_quiet [of w k _ a rest] again_a.IH
  show ?case
    by (auto intro: run_ok_compose quiet_trans)
next
  case (fall_through w n w1 w2)
  from fall_through.hyps(2) obtain k a rest where
    a: "a \<noteq> Fail EINTR" "w1 = io_answered k (Copy_file_range src dst (chunk_size cancel) 0) a rest w"
    unfolding call_copy_file_range_def using RESTARTABLE_io_Some by blast
  from io_answered_run [OF a(1), where count = "chunk_size cancel"
      and c = "Copy_file_range src dst (chunk_size cancel) 0" and k = k and rest = rest and w = w]
    a(2) cancel_requested_run [OF fall_through.hyps(5), of "chunk_size cancel"]
    cancel_requested_quiet [OF fall_through.hyps(5)] io_answered_quiet [of w k _ a rest] fall_through.IH
  show ?case
    by (auto intro: run_ok_compose quiet_trans)
next
  case (again_b w n w1 w2)
  from again_b.hyps(2) obtain k a rest where
    a: "a \<noteq> Fail EINTR" "w1 = io_answered k (Sendfile64 dst src (chunk_size cancel)) a rest w"
    unfolding sendfile64_def using RESTARTABLE_io_Some by blast
  from io_answered_run [OF a(1), where count = "chunk_size cancel"
      and c = "Sendfile64 dst src (chunk_size cancel)" and k = k and rest = rest and w = w]
    a(2) cancel_requested_run [OF again_b.hyps(4), of "chunk_size cancel"]
    cancel_requested_quiet [OF again_b.hyps(4)] io_answered_quiet [of w k _ a rest] again_b.IH
  show ?case
    by (auto intro: run_ok_compose quiet_trans)
qed

lemma observed_cancellation_at:
  assumes "reaches caps dst src cancel w0 t w"
      and "io_replies w = replicate k (Fail EINTR) @ r # rest"
      and "(\<exists>n. r = Ok n) \<or> t = Tier_A \<and> (r = Fail EINVAL \<or> r = Fail ENOSYS \<or> r = Fail EXDEV)"
      and "cancel \<noteq> 0" and "cancel_reads w = v # vs" and "v \<noteq> 0"
  shows "\<exists>w'. Java_sun_nio_fs_LinuxNativeDispatcher_directCopy0 caps dst src cancel w0 =
                Some (IOS_THROWN, w') \<and>
              pending w' = Some (UnixException ECANCELED) \<and>
              io_replies w' = rest \<and> cancel_reads w' = vs \<and>
              trace w' = trace w
                @ replicate k (Kernel (chunk_call t dst src (chunk_size cancel)) (Some EINTR))
                @ [Kernel (chunk_call t dst src (chunk_size cancel)) (reported r), Read_cancel v]"
proof -
  let ?c = "chunk_call t dst src (chunk_size cancel)"
  let ?w1 = "io_answered k ?c r rest w"
  let ?w2 = "polled cancel v vs ?w1"
  have ne: "r \<noteq> Fail EINTR"
    using assms(3) by (auto simp add: EINVAL_def ENOSYS_def EXDEV_def EINTR_def)
  note ans = chunk_answered [OF assms(2) ne, of src dst "chunk_size cancel"]
  have p: "cancel_requested cancel ?w1 = Some (True, ?w2)"
    using cancel_requested_polled [of cancel ?w1 v vs] assms(4-6) by simp
  have c: "Java_sun_nio_fs_LinuxNativeDispatcher_directCopy0 caps dst src cancel w0 =
           continue_from t dst src cancel w"
    by (rule reaches_continue [OF assms(1)])
  have fin: "pending (throwUnixException ECANCELED ?w2) = Some (UnixException ECANCELED) \<and>
             io_replies (throwUnixException ECANCELED ?w2) = rest \<and>
             cancel_reads (throwUnixException ECANCELED ?w2) = vs \<and>
             trace (throwUnixException ECANCELED ?w2) =
               trace w @ replicate k (Kernel ?c (Some EINTR)) @ [Kernel ?c (reported r), Read_cancel v]"
    using assms(4) by (simp add: throwUnixException_def)
  show ?thesis
  proof (cases t)
    case Tier_A
    have r: "RESTARTABLE (call_copy_file_range src dst (chunk_size cancel) 0) w = Some (retval r, ?w1)"
      using ans Tier_A by simp
    have "0 \<le> retval r \<or> errno ?w1 = EINVAL \<or> errno ?w1 = ENOSYS \<or> errno ?w1 = EXDEV"
      using assms(3) by auto
    from copy_file_range_loop_cancelled [OF r this p]
    have "continue_from t dst src cancel w = Some (IOS_THROWN, throwUnixException ECANCELED ?w2)"
      using Tier_A by (simp add: continue_from_def)
    with c fin show ?thesis by simp
  next
    case Tier_B
    have r: "RESTARTABLE (sendfile64 dst src (chunk_size cancel)) w = Some (retval r, ?w1)"
      using ans Tier_B by simp
    have "0 \<le> retval r" using assms(3) Tier_B by auto
    from sendfile_loop_cancelled [OF r this p]
    have "continue_from t dst src cancel w = Some (IOS_THROWN, throwUnixException ECANCELED ?w2)"
      using Tier_B by (simp add: continue_from_def tier_b_def)
    with c fin show ?thesis by simp
  qed
qed

lemmas run_directCopy0 =
  Java_sun_nio_fs_LinuxNativeDispatcher_directCopy0_def chunk_size_def tier_b_def Let_def
  copy_file_range_loop.simps sendfile_loop.simps RESTARTABLE.simps
  call_copy_file_range_def sendfile64_def call_io_def cancel_requested_def
  throwUnixException_def JNU_ThrowIOExceptionWithLastError_def
  both_resolved_def none_resolved_def copy_world_def
  EINTR_def EAGAIN_def EXDEV_def EINVAL_def ENOSYS_def ECANCELED_def

lemmas run_statx =
  Java_sun_nio_fs_LinuxNativeDispatcher_statx0_def
  Java_sun_nio_fs_LinuxNativeDispatcher_statxfd0_def Let_def
  RESTARTABLE.simps statx_wrapper_def call_statx_def
  both_resolved_def none_resolved_def stat_world_def
  AT_FDCWD_def AT_STATX_SYNC_AS_STAT_def STATX_ALL_def STATX_BTIME_def STATX_BASIC_STATS_def
  AT_EMPTY_PATH_def AT_SYMLINK_NOFOLLOW_def NO_FOLLOW_SYMLINK_def FOLLOW_SYMLINK_def JNI_FALSE_def
  EINTR_def

section \<open>The claims\<close>

subsection \<open>C1: a chunk of length zero in Tier A\<close>

text \<open>
  Claim C1 says that a chunk of length 0 in Tier A always ends the call with success,
  also when the cancellation word is set at that moment. The source tests the word
  before it tests the length (lines 457 to 461 come before line 463): with a handle
  supplied, the only chunk of length 0 and the word read as 1, the call leaves a
  \<^verbatim>\<open>UnixException\<close> with \<^verbatim>\<open>ECANCELED\<close> pending and returns \<^verbatim>\<open>IOS_THROWN\<close>, not 0.
\<close>

theorem zero_length_chunk_cancelled_counterexample:
  "Java_sun_nio_fs_LinuxNativeDispatcher_directCopy0 both_resolved 3 4 0x1000 (copy_world [Ok 0] [1]) =
     Some (IOS_THROWN,
           \<lparr>errno = 0, statx_replies = [], io_replies = [], cancel_reads = [], statx_buf = None,
            trace = [Kernel (Copy_file_range 4 3 1048576 0) None, Read_cancel 1],
            pending = Some (UnixException ECANCELED)\<rparr>) \<and>
   IOS_THROWN \<noteq> 0"
  by (simp add: run_directCopy0 IOS_THROWN_def)

text \<open>
  Claim C1 as amended: at any iteration of Tier A, when the chunk (after any number of
  interrupted attempts) has length 0, the call returns 0 if no handle was supplied or
  the cancellation word reads 0 at the check that follows, with no exception raised
  and no call of Tier B; if the word reads non-zero there, the call leaves
  \<^verbatim>\<open>UnixException(ECANCELED)\<close> pending and returns \<^verbatim>\<open>IOS_THROWN\<close>. In both cases the
  trace ends with the chunk and the check.
\<close>

theorem zero_length_chunk_in_tier_a:
  assumes "reaches caps dst src cancel w0 Tier_A w"
      and "io_replies w = replicate k (Fail EINTR) @ Ok 0 # rest"
      and "cancel \<noteq> 0 \<longrightarrow> cancel_reads w = v # vs"
  shows "\<exists>w'. Java_sun_nio_fs_LinuxNativeDispatcher_directCopy0 caps dst src cancel w0 =
                Some (if cancel \<noteq> 0 \<and> v \<noteq> 0 then IOS_THROWN else 0, w') \<and>
              pending w' = (if cancel \<noteq> 0 \<and> v \<noteq> 0 then Some (UnixException ECANCELED) else pending w) \<and>
              io_replies w' = rest \<and>
              trace w' = trace w @ replicate k (Kernel (Copy_file_range src dst (chunk_size cancel) 0) (Some EINTR))
                           @ [Kernel (Copy_file_range src dst (chunk_size cancel) 0) None]
                           @ (if cancel = 0 then [] else [Read_cancel v])"
proof -
  let ?c = "chunk_call Tier_A dst src (chunk_size cancel)"
  let ?w1 = "io_answered k ?c (Ok 0) rest w"
  let ?w2 = "polled cancel v vs ?w1"
  have r: "RESTARTABLE (call_copy_file_range src dst (chunk_size cancel) 0) w = Some (0, ?w1)"
    using chunk_answered [OF assms(2), of src dst "chunk_size cancel"] by simp
  have p: "cancel_requested cancel ?w1 = Some (cancel \<noteq> 0 \<and> v \<noteq> 0, ?w2)"
    using assms(3) by (intro cancel_requested_polled) simp
  have c: "Java_sun_nio_fs_LinuxNativeDispatcher_directCopy0 caps dst src cancel w0 =
           continue_from Tier_A dst src cancel w"
    by (rule reaches_continue [OF assms(1)])
  show ?thesis
  proof (cases "cancel \<noteq> 0 \<and> v \<noteq> 0")
    case True
    with p have "cancel_requested cancel ?w1 = Some (True, ?w2)" by simp
    from copy_file_range_loop_cancelled [OF r _ this]
    have "copy_file_range_loop dst src cancel (chunk_size cancel) w =
          Some (Return IOS_THROWN, throwUnixException ECANCELED ?w2)" by simp
    with c True show ?thesis
      by (simp add: continue_from_def throwUnixException_def chunk_call_def)
  next
    case False
    with p have "cancel_requested cancel ?w1 = Some (False, ?w2)" by simp
    from copy_file_range_loop_end [OF r _ this]
    have "copy_file_range_loop dst src cancel (chunk_size cancel) w = Some (Loop_end 0, ?w2)" by simp
    with c False show ?thesis
      by (auto simp add: continue_from_def chunk_call_def)
  qed
qed

theorem zero_length_chunk_in_tier_a_witness:
  "reaches both_resolved 3 4 0x1000 (copy_world [Fail EINTR, Ok 0] [0]) Tier_A
     (copy_world [Fail EINTR, Ok 0] [0]) \<and>
   (\<exists>w'. Java_sun_nio_fs_LinuxNativeDispatcher_directCopy0 both_resolved 3 4 0x1000
            (copy_world [Fail EINTR, Ok 0] [0]) = Some (0, w') \<and>
          pending w' = None \<and> io_replies w' = [] \<and>
          trace w' = [Kernel (Copy_file_range 4 3 1048576 0) (Some EINTR),
                      Kernel (Copy_file_range 4 3 1048576 0) None, Read_cancel 0])"
proof -
  let ?w = "copy_world [Fail EINTR, Ok 0] [0]"
  have h1: "reaches both_resolved 3 4 0x1000 ?w Tier_A ?w"
    by (rule reaches.enter_a) (simp add: both_resolved_def)
  have h2: "io_replies ?w = replicate 1 (Fail EINTR) @ Ok 0 # []"
    by (simp add: copy_world_def)
  have h3: "(0x1000 :: 64 word) \<noteq> 0 \<longrightarrow> cancel_reads ?w = 0 # []"
    by (simp add: copy_world_def)
  from zero_length_chunk_in_tier_a [OF h1 h2 h3] h1 show ?thesis
    by (simp add: chunk_size_def copy_world_def)
qed

subsection \<open>C2: cancellation observed\<close>

text \<open>
  Claim C2 says that cancellation ends the call with an outcome of its own, distinct
  from failure. In the source it is \<^verbatim>\<open>throwUnixException(env, ECANCELED)\<close> and
  \<^verbatim>\<open>return IOS_THROWN\<close> (lines 458, 459 and 478, 479), the very form of a failure of
  Tier B (lines 474, 475): a copy cancelled after its first chunk, and a copy with no
  handle whose \<^verbatim>\<open>sendfile64\<close> fails with \<^verbatim>\<open>ECANCELED\<close>, return the same value and leave
  the same exception pending.
\<close>

theorem cancelled_like_failed_counterexample:
  "Java_sun_nio_fs_LinuxNativeDispatcher_directCopy0 none_resolved 3 4 0x1000 (copy_world [Ok 5] [1]) =
     Some (IOS_THROWN,
           \<lparr>errno = 0, statx_replies = [], io_replies = [], cancel_reads = [], statx_buf = None,
            trace = [Kernel (Sendfile64 3 4 1048576) None, Read_cancel 1],
            pending = Some (UnixException ECANCELED)\<rparr>) \<and>
   Java_sun_nio_fs_LinuxNativeDispatcher_directCopy0 none_resolved 3 4 0 (copy_world [Fail ECANCELED] []) =
     Some (IOS_THROWN,
           \<lparr>errno = ECANCELED, statx_replies = [], io_replies = [], cancel_reads = [], statx_buf = None,
            trace = [Kernel (Sendfile64 3 4 0x7ffff000) (Some ECANCELED)],
            pending = Some (UnixException ECANCELED)\<rparr>)"
  by (simp add: run_directCopy0 IOS_THROWN_def)

text \<open>
  Claim C2 as amended: at any iteration of either tier, with a handle supplied, when
  the chunk call did not make the function return (it succeeded, or in Tier A failed
  with \<^verbatim>\<open>EINVAL\<close>, \<^verbatim>\<open>ENOSYS\<close> or \<^verbatim>\<open>EXDEV\<close>) and the cancellation word then reads
  non-zero, the call returns \<^verbatim>\<open>IOS_THROWN\<close> with \<^verbatim>\<open>UnixException(ECANCELED)\<close> pending,
  and that read is the last event: no kernel call follows it and no further reply of
  the kernel is consumed. And for a call as a whole: whenever it returns and some
  read of the cancellation word found it set, that read is the last event of the call,
  no earlier read found it set, and the call returned \<^verbatim>\<open>IOS_THROWN\<close> with
  \<^verbatim>\<open>UnixException(ECANCELED)\<close> pending.
\<close>

theorem cancellation_observed:
  assumes "reaches caps dst src cancel w0 t w"
      and "io_replies w = replicate k (Fail EINTR) @ r # rest"
      and "(\<exists>n. r = Ok n) \<or> t = Tier_A \<and> (r = Fail EINVAL \<or> r = Fail ENOSYS \<or> r = Fail EXDEV)"
      and "cancel \<noteq> 0" and "cancel_reads w = v # vs" and "v \<noteq> 0"
  shows "(\<exists>w'. Java_sun_nio_fs_LinuxNativeDispatcher_directCopy0 caps dst src cancel w0 =
                Some (IOS_THROWN, w') \<and>
              pending w' = Some (UnixException ECANCELED) \<and>
              io_replies w' = rest \<and> cancel_reads w' = vs \<and>
              trace w' = trace w
                @ replicate k (Kernel (chunk_call t dst src (chunk_size cancel)) (Some EINTR))
                @ [Kernel (chunk_call t dst src (chunk_size cancel)) (reported r), Read_cancel v]) \<and>
         (\<forall>ret w'. Java_sun_nio_fs_LinuxNativeDispatcher_directCopy0 caps dst src cancel w0 = Some (ret, w') \<longrightarrow>
            (\<exists>evs. trace w' = trace w0 @ evs \<and>
                   cancel_ends evs (ret = IOS_THROWN \<and> pending w' = Some (UnixException ECANCELED))))"
proof (intro conjI allI impI)
  show "\<exists>w'. Java_sun_nio_fs_LinuxNativeDispatcher_directCopy0 caps dst src cancel w0 =
                Some (IOS_THROWN, w') \<and>
              pending w' = Some (UnixException ECANCELED) \<and>
              io_replies w' = rest \<and> cancel_reads w' = vs \<and>
              trace w' = trace w
                @ replicate k (Kernel (chunk_call t dst src (chunk_size cancel)) (Some EINTR))
                @ [Kernel (chunk_call t dst src (chunk_size cancel)) (reported r), Read_cancel v]"
    using assms by (rule observed_cancellation_at)
next
  fix ret w'
  assume "Java_sun_nio_fs_LinuxNativeDispatcher_directCopy0 caps dst src cancel w0 = Some (ret, w')"
  from directCopy0_cancel [OF this]
  show "\<exists>evs. trace w' = trace w0 @ evs \<and>
                   cancel_ends evs (ret = IOS_THROWN \<and> pending w' = Some (UnixException ECANCELED))"
    by (simp add: cancel_ok_iff is_cancelled_def)
qed

theorem cancellation_observed_witness:
  "reaches both_resolved 3 4 0x1000 (copy_world [Fail EXDEV, Ok 7, Ok 0] [0, 1, 0]) Tier_B
     \<lparr>errno = EXDEV, statx_replies = [], io_replies = [Ok 7, Ok 0], cancel_reads = [1, 0],
      statx_buf = None,
      trace = [Kernel (Copy_file_range 4 3 1048576 0) (Some EXDEV), Read_cancel 0],
      pending = None\<rparr> \<and>
   (\<exists>w'. Java_sun_nio_fs_LinuxNativeDispatcher_directCopy0 both_resolved 3 4 0x1000
            (copy_world [Fail EXDEV, Ok 7, Ok 0] [0, 1, 0]) = Some (IOS_THROWN, w') \<and>
          pending w' = Some (UnixException ECANCELED) \<and> io_replies w' = [Ok 0] \<and>
          cancel_reads w' = [0] \<and>
          trace w' = [Kernel (Copy_file_range 4 3 1048576 0) (Some EXDEV), Read_cancel 0,
                      Kernel (Sendfile64 3 4 1048576) None, Read_cancel 1])"
proof -
  let ?w0 = "copy_world [Fail EXDEV, Ok 7, Ok 0] [0, 1, 0]"
  let ?w1 = "\<lparr>errno = EXDEV, statx_replies = [], io_replies = [Ok 7, Ok 0], cancel_reads = [0, 1, 0],
      statx_buf = None, trace = [Kernel (Copy_file_range 4 3 1048576 0) (Some EXDEV)],
      pending = None\<rparr>"
  let ?w2 = "\<lparr>errno = EXDEV, statx_replies = [], io_replies = [Ok 7, Ok 0], cancel_reads = [1, 0],
      statx_buf = None,
      trace = [Kernel (Copy_file_range 4 3 1048576 0) (Some EXDEV), Read_cancel 0],
      pending = None\<rparr>"
  have a: "reaches both_resolved 3 4 0x1000 ?w0 Tier_A ?w0"
    by (rule reaches.enter_a) (simp add: both_resolved_def)
  have r: "RESTARTABLE (call_copy_file_range 4 3 (chunk_size 0x1000) 0) ?w0 = Some (- 1, ?w1)"
    by (simp add: RESTARTABLE.simps call_copy_file_range_def call_io_def copy_world_def
          chunk_size_def EXDEV_def EINTR_def)
  have p: "cancel_requested 0x1000 ?w1 = Some (False, ?w2)"
    by (simp add: cancel_requested_def)
  have h1: "reaches both_resolved 3 4 0x1000 ?w0 Tier_B ?w2"
    by (rule reaches.fall_through [OF a r _ _ p]) simp_all
  have h2: "io_replies ?w2 = replicate 0 (Fail EINTR) @ Ok 7 # [Ok 0]" by simp
  have h3: "(\<exists>n. (Ok 7 :: nat reply) = Ok n) \<or>
            Tier_B = Tier_A \<and> ((Ok 7 :: nat reply) = Fail EINVAL \<or> (Ok 7 :: nat reply) = Fail ENOSYS \<or> (Ok 7 :: nat reply) = Fail EXDEV)"
    by simp
  have h4: "(0x1000 :: 64 word) \<noteq> 0" by simp
  have h5: "cancel_reads ?w2 = 1 # [0]" by simp
  have h6: "(1 :: 32 word) \<noteq> 0" by simp
  from cancellation_observed [OF h1 h2 h3 h4 h5 h6, THEN conjunct1] h1 show ?thesis
    by (simp add: chunk_size_def chunk_call_def)
qed

subsection \<open>C3: Tier B fails structurally and Tier A was never attempted\<close>

text \<open>
  Claim C3 says that the result is \<^verbatim>\<open>IOS_UNSUPPORTED\<close> then. The source returns
  \<^verbatim>\<open>IOS_UNSUPPORTED_CASE\<close> (lines 472, 473) whether or not Tier A was attempted, and
  has no \<^verbatim>\<open>return IOS_UNSUPPORTED\<close> at all.
\<close>

theorem structural_failure_without_range_copy_counterexample:
  "Java_sun_nio_fs_LinuxNativeDispatcher_directCopy0 none_resolved 3 4 0 (copy_world [Fail EINVAL] []) =
     Some (IOS_UNSUPPORTED_CASE,
           \<lparr>errno = EINVAL, statx_replies = [], io_replies = [], cancel_reads = [], statx_buf = None,
            trace = [Kernel (Sendfile64 3 4 0x7ffff000) (Some EINVAL)], pending = None\<rparr>) \<and>
   IOS_UNSUPPORTED_CASE \<noteq> IOS_UNSUPPORTED"
  by (simp add: run_directCopy0 IOS_UNSUPPORTED_CASE_def IOS_UNSUPPORTED_def)

text \<open>
  Claim C3 as amended: when \<^verbatim>\<open>copy_file_range\<close> was not resolved, every iteration is
  one of Tier B, and a failure of \<^verbatim>\<open>sendfile64\<close> with \<^verbatim>\<open>EINVAL\<close> or \<^verbatim>\<open>ENOSYS\<close> makes
  the call return \<^verbatim>\<open>IOS_UNSUPPORTED_CASE\<close> with no exception raised; that value differs
  from \<^verbatim>\<open>IOS_UNSUPPORTED\<close>, which the call never returns.
\<close>

theorem structural_failure_without_range_copy:
  assumes "my_copy_file_range_func caps = NULL"
      and "reaches caps dst src cancel w0 t w"
      and "io_replies w = replicate k (Fail EINTR) @ Fail e # rest"
      and "e = EINVAL \<or> e = ENOSYS"
  shows "t = Tier_B \<and>
         (\<exists>w'. Java_sun_nio_fs_LinuxNativeDispatcher_directCopy0 caps dst src cancel w0 =
                  Some (IOS_UNSUPPORTED_CASE, w') \<and> pending w' = pending w) \<and>
         IOS_UNSUPPORTED_CASE \<noteq> IOS_UNSUPPORTED \<and>
         (\<forall>r w'. Java_sun_nio_fs_LinuxNativeDispatcher_directCopy0 caps dst src cancel w0 = Some (r, w')
            \<longrightarrow> r \<noteq> IOS_UNSUPPORTED)"
proof -
  have t: "t = Tier_B" using assms(2,1) by (rule reaches_without_range_copy)
  have e: "e \<noteq> EINTR" using assms(4) by (auto simp add: EINVAL_def ENOSYS_def EINTR_def)
  let ?w1 = "io_answered k (chunk_call Tier_B dst src (chunk_size cancel)) (Fail e) rest w"
  have ne: "Fail e \<noteq> (Fail EINTR :: nat reply)" using e by simp
  have r: "RESTARTABLE (sendfile64 dst src (chunk_size cancel)) w = Some (- 1, ?w1)"
    using chunk_answered [OF assms(3) ne, of src dst "chunk_size cancel"] by simp
  have "Java_sun_nio_fs_LinuxNativeDispatcher_directCopy0 caps dst src cancel w0 =
        continue_from Tier_B dst src cancel w"
    using reaches_continue [OF assms(2)] t by simp
  with sendfile_loop_failed [OF r, of cancel] assms(4)
  have "\<exists>w'. Java_sun_nio_fs_LinuxNativeDispatcher_directCopy0 caps dst src cancel w0 =
                  Some (IOS_UNSUPPORTED_CASE, w') \<and> pending w' = pending w"
    by (auto simp add: continue_from_def tier_b_def)
  moreover have "\<forall>r w'. Java_sun_nio_fs_LinuxNativeDispatcher_directCopy0 caps dst src cancel w0 = Some (r, w')
            \<longrightarrow> r \<noteq> IOS_UNSUPPORTED"
    using directCopy0_run status_distinct(2) by blast
  ultimately show ?thesis using t status_distinct(1) by blast
qed

theorem structural_failure_without_range_copy_witness:
  "my_copy_file_range_func none_resolved = NULL \<and>
   reaches none_resolved 3 4 0 (copy_world [Fail EINTR, Fail ENOSYS] []) Tier_B
     (copy_world [Fail EINTR, Fail ENOSYS] []) \<and>
   (\<exists>w'. Java_sun_nio_fs_LinuxNativeDispatcher_directCopy0 none_resolved 3 4 0
            (copy_world [Fail EINTR, Fail ENOSYS] []) = Some (IOS_UNSUPPORTED_CASE, w') \<and>
          pending w' = None) \<and>
   IOS_UNSUPPORTED_CASE \<noteq> IOS_UNSUPPORTED"
proof -
  let ?w = "copy_world [Fail EINTR, Fail ENOSYS] []"
  have h1: "my_copy_file_range_func none_resolved = NULL" by (simp add: none_resolved_def)
  have h2: "reaches none_resolved 3 4 0 ?w Tier_B ?w" by (rule reaches.enter_b [OF h1])
  have h3: "io_replies ?w = replicate 1 (Fail EINTR) @ Fail ENOSYS # []" by (simp add: copy_world_def)
  have h4: "ENOSYS = EINVAL \<or> ENOSYS = ENOSYS" by simp
  from structural_failure_without_range_copy [OF h1 h2 h3 h4] h1 h2 show ?thesis
    by (simp add: copy_world_def)
qed

subsection \<open>C4: extended stat unavailable\<close>

text \<open>
  Claim C4 says that the result of a query without \<^verbatim>\<open>statx\<close> can be told apart from
  success. Both stat functions return 0 then (lines 382 and 408), the value they
  return after a successful \<^verbatim>\<open>statx\<close> (lines 375 and 401): the same query on the same
  state returns 0 without the entry point, leaving the attributes as they were, and 0
  with it, the attributes filled.
\<close>

theorem extended_stat_unavailable_counterexample:
  "Java_sun_nio_fs_LinuxNativeDispatcher_statx0 none_resolved 0x2000 blank_attributes 1
     (stat_world [Ok sample_statx]) =
     Some (0, blank_attributes, stat_world [Ok sample_statx]) \<and>
   Java_sun_nio_fs_LinuxNativeDispatcher_statx0 both_resolved 0x2000 blank_attributes 1
     (stat_world [Ok sample_statx]) =
     Some (0, copy_statx_attributes sample_statx blank_attributes,
           \<lparr>errno = 0, statx_replies = [], io_replies = [], cancel_reads = [],
            statx_buf = Some sample_statx,
            trace = [Kernel (Statx (- 100) (Path_at 0x2000) 0 0xfff) None], pending = None\<rparr>)"
  by (simp add: run_statx)

text \<open>
  Claim C4 as amended: when \<^verbatim>\<open>my_statx_func\<close> is \<^verbatim>\<open>NULL\<close>, \<^verbatim>\<open>statx0\<close> (any path, any
  symlink policy) and \<^verbatim>\<open>statxfd0\<close> (any descriptor) return 0 and change nothing: the
  attributes object is the caller's and no kernel call is made (the trace, the replies
  and \<^verbatim>\<open>errno\<close> are those of the state before). With the entry point resolved, the same
  query in the same state returns 0 when \<^verbatim>\<open>statx\<close> succeeds and the error number when it
  fails: the value returned without the entry point is that of success, and differs
  from that of a failure whenever the error number is not 0.
\<close>

theorem extended_stat_unavailable:
  assumes "my_statx_func caps = NULL"
  shows "Java_sun_nio_fs_LinuxNativeDispatcher_statx0 caps p a fl w = Some (0, a, w) \<and>
         Java_sun_nio_fs_LinuxNativeDispatcher_statxfd0 caps fd a w = Some (0, a, w) \<and>
         (\<forall>k r rest. statx_replies w = replicate k (Fail EINTR) @ r # rest \<and> r \<noteq> Fail EINTR \<longrightarrow>
            (\<exists>a' w'. Java_sun_nio_fs_LinuxNativeDispatcher_statx0 (caps\<lparr>my_statx_func := Resolved\<rparr>) p a fl w =
                       Some (case r of Ok buf \<Rightarrow> 0 | Fail e \<Rightarrow> e, a', w')) \<and>
            (\<exists>a' w'. Java_sun_nio_fs_LinuxNativeDispatcher_statxfd0 (caps\<lparr>my_statx_func := Resolved\<rparr>) fd a w =
                       Some (case r of Ok buf \<Rightarrow> 0 | Fail e \<Rightarrow> e, a', w')))"
proof (intro conjI allI impI)
  show "Java_sun_nio_fs_LinuxNativeDispatcher_statx0 caps p a fl w = Some (0, a, w)"
    and "Java_sun_nio_fs_LinuxNativeDispatcher_statxfd0 caps fd a w = Some (0, a, w)"
    using statx_unavailable [OF assms] by simp_all
next
  fix k r rest
  assume h: "statx_replies w = replicate k (Fail EINTR) @ r # rest \<and> r \<noteq> Fail EINTR"
  have av: "my_statx_func (caps\<lparr>my_statx_func := Resolved\<rparr>) \<noteq> NULL" by simp
  from h have s: "statx_replies w = replicate k (Fail EINTR) @ r # rest" and ne: "r \<noteq> Fail EINTR"
    by simp_all
  from statx0_total [OF av s ne, of p a fl]
  show "\<exists>a' w'. Java_sun_nio_fs_LinuxNativeDispatcher_statx0 (caps\<lparr>my_statx_func := Resolved\<rparr>) p a fl w =
                 Some (case r of Ok buf \<Rightarrow> 0 | Fail e \<Rightarrow> e, a', w')"
    by simp
  from statxfd0_total [OF av s ne, of fd a]
  show "\<exists>a' w'. Java_sun_nio_fs_LinuxNativeDispatcher_statxfd0 (caps\<lparr>my_statx_func := Resolved\<rparr>) fd a w =
                 Some (case r of Ok buf \<Rightarrow> 0 | Fail e \<Rightarrow> e, a', w')"
    by simp
qed

theorem extended_stat_unavailable_witness:
  "my_statx_func none_resolved = NULL \<and>
   Java_sun_nio_fs_LinuxNativeDispatcher_statx0 none_resolved 0x2000 blank_attributes 0
     (stat_world [Ok sample_statx]) =
     Some (0, blank_attributes, stat_world [Ok sample_statx]) \<and>
   Java_sun_nio_fs_LinuxNativeDispatcher_statxfd0 none_resolved 5 blank_attributes
     (stat_world [Ok sample_statx]) =
     Some (0, blank_attributes, stat_world [Ok sample_statx]) \<and>
   (\<exists>a' w'. Java_sun_nio_fs_LinuxNativeDispatcher_statx0
               (none_resolved\<lparr>my_statx_func := Resolved\<rparr>) 0x2000 blank_attributes 0
               (stat_world [Ok sample_statx]) = Some (0, a', w'))"
proof -
  let ?w = "stat_world [Ok sample_statx]"
  have h: "my_statx_func none_resolved = NULL" by (simp add: none_resolved_def)
  have s: "statx_replies ?w = replicate 0 (Fail EINTR) @ Ok sample_statx # [] \<and>
           Ok sample_statx \<noteq> Fail EINTR"
    by (simp add: stat_world_def)
  note t = extended_stat_unavailable [OF h, where p = "0x2000" and a = blank_attributes
      and fl = 0 and fd = 5 and w = "?w"]
  from t [THEN conjunct2, THEN conjunct2, rule_format, OF s, THEN conjunct1]
  have "\<exists>a' w'. Java_sun_nio_fs_LinuxNativeDispatcher_statx0
               (none_resolved\<lparr>my_statx_func := Resolved\<rparr>) 0x2000 blank_attributes 0 ?w =
               Some (0, a', w')"
    by simp
  with t h show ?thesis by simp
qed

subsection \<open>C5: an error return in Tier A\<close>

text \<open>
  Claim C5 says that \<^verbatim>\<open>EINVAL\<close>, \<^verbatim>\<open>ENOSYS\<close> and \<^verbatim>\<open>EXDEV\<close> always lead to Tier B with
  no error surfaced. The \<^verbatim>\<open>break\<close> of line 451 leaves the \<^verbatim>\<open>switch\<close> only, and the
  cancellation check of lines 457 to 460 comes next: with the word set, the call
  raises \<^verbatim>\<open>UnixException(ECANCELED)\<close> and returns, \<^verbatim>\<open>sendfile64\<close> is not called (its
  reply is still unused).
\<close>

theorem tier_a_error_then_cancelled_counterexample:
  "Java_sun_nio_fs_LinuxNativeDispatcher_directCopy0 both_resolved 3 4 0x1000
     (copy_world [Fail EINVAL, Ok 0] [1]) =
     Some (IOS_THROWN,
           \<lparr>errno = EINVAL, statx_replies = [], io_replies = [Ok 0], cancel_reads = [],
            statx_buf = None,
            trace = [Kernel (Copy_file_range 4 3 1048576 0) (Some EINVAL), Read_cancel 1],
            pending = Some (UnixException ECANCELED)\<rparr>)"
  by (simp add: run_directCopy0 IOS_THROWN_def)

text \<open>
  Claim C5 as amended: at any iteration of Tier A, when \<^verbatim>\<open>copy_file_range\<close> fails with
  an error \<open>e\<close> other than \<^verbatim>\<open>EINTR\<close>: if \<open>e\<close> is \<^verbatim>\<open>EINVAL\<close>, \<^verbatim>\<open>ENOSYS\<close> or \<^verbatim>\<open>EXDEV\<close>
  and no cancellation is seen at the check that follows (no handle, or the word reads
  0), the call goes on as Tier B from there, with no exception raised and
  \<^verbatim>\<open>copy_file_range\<close> not called again; if the word reads non-zero at that check, the
  call returns \<^verbatim>\<open>IOS_THROWN\<close> with \<^verbatim>\<open>UnixException(ECANCELED)\<close> pending and Tier B is
  not attempted; for any other \<open>e\<close> the call returns \<^verbatim>\<open>IOS_THROWN\<close> with an
  \<^verbatim>\<open>IOException\<close> carrying \<open>e\<close> pending, the failed call being the last event.
\<close>

theorem tier_a_error_return:
  assumes "reaches caps dst src cancel w0 Tier_A w"
      and "io_replies w = replicate k (Fail EINTR) @ Fail e # rest" and "e \<noteq> EINTR"
      and "cancel \<noteq> 0 \<longrightarrow> cancel_reads w = v # vs"
  shows "if e = EINVAL \<or> e = ENOSYS \<or> e = EXDEV then
           if cancel \<noteq> 0 \<and> v \<noteq> 0 then
             \<exists>w'. Java_sun_nio_fs_LinuxNativeDispatcher_directCopy0 caps dst src cancel w0 =
                     Some (IOS_THROWN, w') \<and>
                   pending w' = Some (UnixException ECANCELED) \<and> io_replies w' = rest \<and>
                   trace w' = trace w
                     @ replicate k (Kernel (Copy_file_range src dst (chunk_size cancel) 0) (Some EINTR))
                     @ [Kernel (Copy_file_range src dst (chunk_size cancel) 0) (Some e), Read_cancel v]
           else
             \<exists>w2. Java_sun_nio_fs_LinuxNativeDispatcher_directCopy0 caps dst src cancel w0 =
                     tier_b dst src cancel (chunk_size cancel) w2 \<and>
                   reaches caps dst src cancel w0 Tier_B w2 \<and>
                   pending w2 = pending w \<and> io_replies w2 = rest \<and>
                   trace w2 = trace w
                     @ replicate k (Kernel (Copy_file_range src dst (chunk_size cancel) 0) (Some EINTR))
                     @ [Kernel (Copy_file_range src dst (chunk_size cancel) 0) (Some e)]
                     @ (if cancel = 0 then [] else [Read_cancel v])
         else
           \<exists>w'. Java_sun_nio_fs_LinuxNativeDispatcher_directCopy0 caps dst src cancel w0 =
                   Some (IOS_THROWN, w') \<and>
                 pending w' = Some (IOExceptionWithLastError e ''Copy failed'') \<and>
                 io_replies w' = rest \<and> cancel_reads w' = cancel_reads w \<and>
                 trace w' = trace w
                   @ replicate k (Kernel (Copy_file_range src dst (chunk_size cancel) 0) (Some EINTR))
                   @ [Kernel (Copy_file_range src dst (chunk_size cancel) 0) (Some e)]"
proof -
  let ?c = "chunk_call Tier_A dst src (chunk_size cancel)"
  let ?w1 = "io_answered k ?c (Fail e) rest w"
  let ?w2 = "polled cancel v vs ?w1"
  have ne: "Fail e \<noteq> (Fail EINTR :: nat reply)" using assms(3) by simp
  have r: "RESTARTABLE (call_copy_file_range src dst (chunk_size cancel) 0) w = Some (- 1, ?w1)"
    using chunk_answered [OF assms(2) ne, of src dst "chunk_size cancel"] by simp
  have p: "cancel_requested cancel ?w1 = Some (cancel \<noteq> 0 \<and> v \<noteq> 0, ?w2)"
    using assms(4) by (intro cancel_requested_polled) simp
  have c: "Java_sun_nio_fs_LinuxNativeDispatcher_directCopy0 caps dst src cancel w0 =
           continue_from Tier_A dst src cancel w"
    by (rule reaches_continue [OF assms(1)])
  show ?thesis
  proof (cases "e = EINVAL \<or> e = ENOSYS \<or> e = EXDEV")
    case soft: True
    then have e: "errno ?w1 = EINVAL \<or> errno ?w1 = ENOSYS \<or> errno ?w1 = EXDEV" by simp
    show ?thesis
    proof (cases "cancel \<noteq> 0 \<and> v \<noteq> 0")
      case True
      with p have "cancel_requested cancel ?w1 = Some (True, ?w2)" by simp
      from copy_file_range_loop_cancelled [OF r _ this] e
      have "copy_file_range_loop dst src cancel (chunk_size cancel) w =
            Some (Return IOS_THROWN, throwUnixException ECANCELED ?w2)" by simp
      with c soft True show ?thesis
        by (simp add: continue_from_def throwUnixException_def chunk_call_def)
    next
      case False
      with p have p': "cancel_requested cancel ?w1 = Some (False, ?w2)" by simp
      have "reaches caps dst src cancel w0 Tier_B ?w2"
        by (rule reaches.fall_through [OF assms(1) r _ e p']) simp
      moreover from this
      have "Java_sun_nio_fs_LinuxNativeDispatcher_directCopy0 caps dst src cancel w0 =
            tier_b dst src cancel (chunk_size cancel) ?w2"
        by (simp add: reaches_continue continue_from_def)
      ultimately show ?thesis using soft False
        by (auto simp add: chunk_call_def)
    qed
  next
    case False
    then have "\<not> (errno ?w1 = EINVAL \<or> errno ?w1 = ENOSYS \<or> errno ?w1 = EXDEV)" by simp
    from copy_file_range_loop_fatal [OF r _ this]
    have "copy_file_range_loop dst src cancel (chunk_size cancel) w =
          Some (Return IOS_THROWN, JNU_ThrowIOExceptionWithLastError ''Copy failed'' ?w1)" by simp
    with c False show ?thesis
      by (simp add: continue_from_def JNU_ThrowIOExceptionWithLastError_def chunk_call_def)
  qed
qed

theorem tier_a_error_return_witness:
  "reaches both_resolved 3 4 0 (copy_world [Fail EINTR, Fail EXDEV, Ok 0] []) Tier_A
     (copy_world [Fail EINTR, Fail EXDEV, Ok 0] []) \<and>
   (\<exists>w2. Java_sun_nio_fs_LinuxNativeDispatcher_directCopy0 both_resolved 3 4 0
            (copy_world [Fail EINTR, Fail EXDEV, Ok 0] []) = tier_b 3 4 0 0x7ffff000 w2 \<and>
          reaches both_resolved 3 4 0 (copy_world [Fail EINTR, Fail EXDEV, Ok 0] []) Tier_B w2 \<and>
          pending w2 = None \<and> io_replies w2 = [Ok 0] \<and>
          trace w2 = [Kernel (Copy_file_range 4 3 0x7ffff000 0) (Some EINTR),
                      Kernel (Copy_file_range 4 3 0x7ffff000 0) (Some EXDEV)]) \<and>
   Java_sun_nio_fs_LinuxNativeDispatcher_directCopy0 both_resolved 3 4 0
     (copy_world [Fail EINTR, Fail EXDEV, Ok 0] []) =
     Some (0, \<lparr>errno = EXDEV, statx_replies = [], io_replies = [], cancel_reads = [],
               statx_buf = None,
               trace = [Kernel (Copy_file_range 4 3 0x7ffff000 0) (Some EINTR),
                        Kernel (Copy_file_range 4 3 0x7ffff000 0) (Some EXDEV),
                        Kernel (Sendfile64 3 4 0x7ffff000) None],
               pending = None\<rparr>)"
proof -
  let ?w = "copy_world [Fail EINTR, Fail EXDEV, Ok 0] []"
  have h1: "reaches both_resolved 3 4 0 ?w Tier_A ?w"
    by (rule reaches.enter_a) (simp add: both_resolved_def)
  have h2: "io_replies ?w = replicate 1 (Fail EINTR) @ Fail EXDEV # [Ok 0]"
    by (simp add: copy_world_def)
  have h3: "EXDEV \<noteq> EINTR" by simp
  have h4: "(0 :: 64 word) \<noteq> 0 \<longrightarrow> cancel_reads ?w = 0 # []" by simp
  have "Java_sun_nio_fs_LinuxNativeDispatcher_directCopy0 both_resolved 3 4 0 ?w =
     Some (0, \<lparr>errno = EXDEV, statx_replies = [], io_replies = [], cancel_reads = [],
               statx_buf = None,
               trace = [Kernel (Copy_file_range 4 3 0x7ffff000 0) (Some EINTR),
                        Kernel (Copy_file_range 4 3 0x7ffff000 0) (Some EXDEV),
                        Kernel (Sendfile64 3 4 0x7ffff000) None],
               pending = None\<rparr>)"
    by (simp add: run_directCopy0)
  with tier_a_error_return [OF h1 h2 h3 h4] h1 show ?thesis
    by (simp add: chunk_size_def copy_world_def)
qed

subsection \<open>C6: an error return in Tier B\<close>

text \<open>
  Claim C6: at any iteration of Tier B, when \<^verbatim>\<open>sendfile64\<close> (after any number of
  interrupted attempts) fails with an error \<open>e\<close> other than \<^verbatim>\<open>EINTR\<close>, the call returns
  \<^verbatim>\<open>IOS_UNAVAILABLE\<close> for \<^verbatim>\<open>EAGAIN\<close>, \<^verbatim>\<open>IOS_UNSUPPORTED_CASE\<close> for \<^verbatim>\<open>EINVAL\<close> and
  \<^verbatim>\<open>ENOSYS\<close>, both with no exception raised, and \<^verbatim>\<open>IOS_THROWN\<close> with a
  \<^verbatim>\<open>UnixException\<close> carrying \<open>e\<close> for any other error. The cancellation word is not
  read, and the failed call is the last event.
\<close>

theorem tier_b_error_return:
  assumes "reaches caps dst src cancel w0 Tier_B w"
      and "io_replies w = replicate k (Fail EINTR) @ Fail e # rest" and "e \<noteq> EINTR"
  shows "\<exists>w'. Java_sun_nio_fs_LinuxNativeDispatcher_directCopy0 caps dst src cancel w0 =
                Some (if e = EAGAIN then IOS_UNAVAILABLE
                      else if e = EINVAL \<or> e = ENOSYS then IOS_UNSUPPORTED_CASE
                      else IOS_THROWN, w') \<and>
              pending w' = (if e = EAGAIN \<or> e = EINVAL \<or> e = ENOSYS then pending w
                            else Some (UnixException e)) \<and>
              io_replies w' = rest \<and> cancel_reads w' = cancel_reads w \<and>
              trace w' = trace w
                @ replicate k (Kernel (Sendfile64 dst src (chunk_size cancel)) (Some EINTR))
                @ [Kernel (Sendfile64 dst src (chunk_size cancel)) (Some e)]"
proof -
  let ?c = "chunk_call Tier_B dst src (chunk_size cancel)"
  let ?w1 = "io_answered k ?c (Fail e) rest w"
  have ne: "Fail e \<noteq> (Fail EINTR :: nat reply)" using assms(3) by simp
  have r: "RESTARTABLE (sendfile64 dst src (chunk_size cancel)) w = Some (- 1, ?w1)"
    using chunk_answered [OF assms(2) ne, of src dst "chunk_size cancel"] by simp
  have c: "Java_sun_nio_fs_LinuxNativeDispatcher_directCopy0 caps dst src cancel w0 =
           continue_from Tier_B dst src cancel w"
    by (rule reaches_continue [OF assms(1)])
  from sendfile_loop_failed [OF r, of cancel] c show ?thesis
    by (simp add: continue_from_def tier_b_def throwUnixException_def chunk_call_def)
qed

theorem tier_b_error_return_witness:
  "reaches both_resolved 3 4 0 (copy_world [Fail EXDEV, Fail EINTR, Fail EAGAIN] []) Tier_B
     \<lparr>errno = EXDEV, statx_replies = [], io_replies = [Fail EINTR, Fail EAGAIN], cancel_reads = [],
      statx_buf = None, trace = [Kernel (Copy_file_range 4 3 0x7ffff000 0) (Some EXDEV)],
      pending = None\<rparr> \<and>
   (\<exists>w'. Java_sun_nio_fs_LinuxNativeDispatcher_directCopy0 both_resolved 3 4 0
            (copy_world [Fail EXDEV, Fail EINTR, Fail EAGAIN] []) = Some (IOS_UNAVAILABLE, w') \<and>
          pending w' = None \<and> io_replies w' = [] \<and> cancel_reads w' = [] \<and>
          trace w' = [Kernel (Copy_file_range 4 3 0x7ffff000 0) (Some EXDEV),
                      Kernel (Sendfile64 3 4 0x7ffff000) (Some EINTR),
                      Kernel (Sendfile64 3 4 0x7ffff000) (Some EAGAIN)])"
proof -
  let ?w0 = "copy_world [Fail EXDEV, Fail EINTR, Fail EAGAIN] []"
  let ?w1 = "\<lparr>errno = EXDEV, statx_replies = [], io_replies = [Fail EINTR, Fail EAGAIN],
      cancel_reads = [], statx_buf = None,
      trace = [Kernel (Copy_file_range 4 3 0x7ffff000 0) (Some EXDEV)], pending = None\<rparr>"
  have a: "reaches both_resolved 3 4 0 ?w0 Tier_A ?w0"
    by (rule reaches.enter_a) (simp add: both_resolved_def)
  have r: "RESTARTABLE (call_copy_file_range 4 3 (chunk_size 0) 0) ?w0 = Some (- 1, ?w1)"
    by (simp add: RESTARTABLE.simps call_copy_file_range_def call_io_def copy_world_def
          chunk_size_def EXDEV_def EINTR_def)
  have p: "cancel_requested 0 ?w1 = Some (False, ?w1)"
    by (simp add: cancel_requested_def)
  have h1: "reaches both_resolved 3 4 0 ?w0 Tier_B ?w1"
    by (rule reaches.fall_through [OF a r _ _ p]) simp_all
  have h2: "io_replies ?w1 = replicate 1 (Fail EINTR) @ Fail EAGAIN # []" by simp
  have h3: "EAGAIN \<noteq> EINTR" by simp
  from tier_b_error_return [OF h1 h2 h3] h1 show ?thesis
    by (simp add: chunk_size_def)
qed

subsection \<open>C7: interrupted calls are restarted\<close>

text \<open>
  Claim C7, in five parts. For the kernel calls of the two tiers under the macro: when
  the kernel answers \<^verbatim>\<open>EINTR\<close> \<open>k\<close> times and then \<open>r\<close>, the macro yields the return
  value of \<open>r\<close> after \<open>k + 1\<close> calls with the same arguments. For the two stat functions
  the same, the value returned being 0, or the error of \<open>r\<close>. Whenever a stat function
  returns, the value is not \<^verbatim>\<open>EINTR\<close> and the events of the call are \<open>restarted\<close>.
  Whenever \<^verbatim>\<open>directCopy0\<close> returns, the value is not \<^verbatim>\<open>EINTR\<close>, the exception pending
  is the one from before or carries an error other than \<^verbatim>\<open>EINTR\<close>, and the events of
  the call are \<open>restarted\<close>. And for a call that has not returned: at the head of every
  iteration it reaches, no exception has been raised and the events so far are
  \<open>restarted\<close>.
\<close>

theorem interrupted_calls_restarted:
  "(\<forall>k r rest. io_replies w = replicate k (Fail EINTR) @ r # rest \<and> r \<noteq> Fail EINTR \<longrightarrow>
      (\<exists>w'. RESTARTABLE (call_copy_file_range src dst count 0) w = Some (retval r, w') \<and>
             trace w' = trace w @ replicate k (Kernel (Copy_file_range src dst count 0) (Some EINTR))
                          @ [Kernel (Copy_file_range src dst count 0) (reported r)]) \<and>
      (\<exists>w'. RESTARTABLE (sendfile64 dst src count) w = Some (retval r, w') \<and>
             trace w' = trace w @ replicate k (Kernel (Sendfile64 dst src count) (Some EINTR))
                          @ [Kernel (Sendfile64 dst src count) (reported r)])) \<and>
   (\<forall>k r rest. my_statx_func caps \<noteq> NULL \<and>
      statx_replies w = replicate k (Fail EINTR) @ r # rest \<and> r \<noteq> Fail EINTR \<longrightarrow>
      (\<exists>a' w'. Java_sun_nio_fs_LinuxNativeDispatcher_statx0 caps p a fl w =
                  Some (case r of Ok buf \<Rightarrow> 0 | Fail e \<Rightarrow> e, a', w') \<and>
                (\<exists>c. trace w' = trace w @ replicate k (Kernel c (Some EINTR)) @ [Kernel c (reported r)])) \<and>
      (\<exists>a' w'. Java_sun_nio_fs_LinuxNativeDispatcher_statxfd0 caps fd a w =
                  Some (case r of Ok buf \<Rightarrow> 0 | Fail e \<Rightarrow> e, a', w') \<and>
                (\<exists>c. trace w' = trace w @ replicate k (Kernel c (Some EINTR)) @ [Kernel c (reported r)]))) \<and>
   (\<forall>ret a' w'. Java_sun_nio_fs_LinuxNativeDispatcher_statx0 caps p a fl w = Some (ret, a', w') \<or>
                 Java_sun_nio_fs_LinuxNativeDispatcher_statxfd0 caps fd a w = Some (ret, a', w') \<longrightarrow>
      ret \<noteq> EINTR \<and> (\<exists>evs. trace w' = trace w @ evs \<and> restarted evs)) \<and>
   (\<forall>ret w'. Java_sun_nio_fs_LinuxNativeDispatcher_directCopy0 caps dst src cancel w = Some (ret, w') \<longrightarrow>
      ret \<noteq> EINTR \<and> surfaced (pending w) (pending w') \<and>
      (\<exists>evs. trace w' = trace w @ evs \<and> restarted evs)) \<and>
   (\<forall>t w1. reaches caps dst src cancel w t w1 \<longrightarrow>
      pending w1 = pending w \<and> (\<exists>evs. trace w1 = trace w @ evs \<and> restarted evs))"
proof (intro conjI allI impI)
  fix k r rest
  assume h: "io_replies w = replicate k (Fail EINTR) @ r # rest \<and> r \<noteq> Fail EINTR"
  then have s: "io_replies w = replicate k (Fail EINTR) @ r # rest" and ne: "r \<noteq> Fail EINTR"
    by simp_all
  from chunk_answered [OF s ne, of src dst count]
  show "\<exists>w'. RESTARTABLE (call_copy_file_range src dst count 0) w = Some (retval r, w') \<and>
             trace w' = trace w @ replicate k (Kernel (Copy_file_range src dst count 0) (Some EINTR))
                          @ [Kernel (Copy_file_range src dst count 0) (reported r)]"
    and "\<exists>w'. RESTARTABLE (sendfile64 dst src count) w = Some (retval r, w') \<and>
             trace w' = trace w @ replicate k (Kernel (Sendfile64 dst src count) (Some EINTR))
                          @ [Kernel (Sendfile64 dst src count) (reported r)]"
    by (simp_all add: chunk_call_def)
next
  fix k r rest
  assume h: "my_statx_func caps \<noteq> NULL \<and>
      statx_replies w = replicate k (Fail EINTR) @ r # rest \<and> r \<noteq> Fail EINTR"
  then have av: "my_statx_func caps \<noteq> NULL"
    and s: "statx_replies w = replicate k (Fail EINTR) @ r # rest" and ne: "r \<noteq> Fail EINTR"
    by simp_all
  from statx0_total [OF av s ne, of p a fl]
  show "\<exists>a' w'. Java_sun_nio_fs_LinuxNativeDispatcher_statx0 caps p a fl w =
                  Some (case r of Ok buf \<Rightarrow> 0 | Fail e \<Rightarrow> e, a', w') \<and>
                (\<exists>c. trace w' = trace w @ replicate k (Kernel c (Some EINTR)) @ [Kernel c (reported r)])"
    by auto
  from statxfd0_total [OF av s ne, of fd a]
  show "\<exists>a' w'. Java_sun_nio_fs_LinuxNativeDispatcher_statxfd0 caps fd a w =
                  Some (case r of Ok buf \<Rightarrow> 0 | Fail e \<Rightarrow> e, a', w') \<and>
                (\<exists>c. trace w' = trace w @ replicate k (Kernel c (Some EINTR)) @ [Kernel c (reported r)])"
    by auto
next
  fix ret a' w'
  assume h: "Java_sun_nio_fs_LinuxNativeDispatcher_statx0 caps p a fl w = Some (ret, a', w') \<or>
             Java_sun_nio_fs_LinuxNativeDispatcher_statxfd0 caps fd a w = Some (ret, a', w')"
  have "ret \<noteq> EINTR \<and> (\<exists>evs. trace w' = trace w @ evs \<and> restarted evs)"
  proof (cases "my_statx_func caps = NULL")
    case True
    with h statx_unavailable [OF True, of p a fl w fd] show ?thesis
      by (auto simp add: EINTR_def)
  next
    case False
    from h consider
        "Java_sun_nio_fs_LinuxNativeDispatcher_statx0 caps p a fl w = Some (ret, a', w')"
      | "Java_sun_nio_fs_LinuxNativeDispatcher_statxfd0 caps fd a w = Some (ret, a', w')"
      by blast
    then have "\<exists>k r rest. statx_replies w = replicate k (Fail EINTR) @ r # rest \<and> r \<noteq> Fail EINTR"
      by cases (erule statx0_Some [OF _ False], erule statxfd0_Some [OF _ False])
    then obtain k r rest where
      s: "statx_replies w = replicate k (Fail EINTR) @ r # rest" "r \<noteq> Fail EINTR"
      by blast
    have "reported r \<noteq> Some EINTR" using s(2) by (cases r) simp_all
    then have "\<And>c. restarted (replicate k (Kernel c (Some EINTR)) @ [Kernel c (reported r)])"
      by (rule restarted_chunk)
    with h statx0_total [OF False s, of p a fl] statxfd0_total [OF False s, of fd a] s(2)
    show ?thesis
      by (cases r) (auto simp add: EINTR_def)
  qed
  then show "ret \<noteq> EINTR" and "\<exists>evs. trace w' = trace w @ evs \<and> restarted evs" by simp_all
next
  fix ret w'
  assume "Java_sun_nio_fs_LinuxNativeDispatcher_directCopy0 caps dst src cancel w = Some (ret, w')"
  from directCopy0_run [OF this]
  show "ret \<noteq> EINTR" and "surfaced (pending w) (pending w')"
    and "\<exists>evs. trace w' = trace w @ evs \<and> restarted evs"
    using status_distinct(3) by (auto simp add: run_ok_iff)
next
  fix t w1
  assume "reaches caps dst src cancel w t w1"
  from reaches_run [OF this]
  show "pending w1 = pending w" and "\<exists>evs. trace w1 = trace w @ evs \<and> restarted evs"
    by (auto simp add: run_ok_iff)
qed

theorem interrupted_calls_restarted_witness:
  "(\<exists>w'. RESTARTABLE (call_copy_file_range 4 3 1048576 0) (copy_world [Fail EINTR, Fail EINTR, Ok 3] []) =
            Some (3, w') \<and>
          trace w' = [Kernel (Copy_file_range 4 3 1048576 0) (Some EINTR),
                      Kernel (Copy_file_range 4 3 1048576 0) (Some EINTR),
                      Kernel (Copy_file_range 4 3 1048576 0) None]) \<and>
   (\<exists>a' w'. Java_sun_nio_fs_LinuxNativeDispatcher_statxfd0 both_resolved 5 blank_attributes
               (stat_world [Fail EINTR, Fail 2]) = Some (2, a', w') \<and>
             (\<exists>c. trace w' = [Kernel c (Some EINTR), Kernel c (Some 2)])) \<and>
   Java_sun_nio_fs_LinuxNativeDispatcher_directCopy0 both_resolved 3 4 0
     (copy_world [Fail EINTR, Fail 5] []) =
     Some (IOS_THROWN,
           \<lparr>errno = 5, statx_replies = [], io_replies = [], cancel_reads = [], statx_buf = None,
            trace = [Kernel (Copy_file_range 4 3 0x7ffff000 0) (Some EINTR),
                     Kernel (Copy_file_range 4 3 0x7ffff000 0) (Some 5)],
            pending = Some (IOExceptionWithLastError 5 ''Copy failed'')\<rparr>) \<and>
   IOS_THROWN \<noteq> EINTR \<and>
   surfaced None (Some (IOExceptionWithLastError 5 ''Copy failed'')) \<and>
   restarted [Kernel (Copy_file_range 4 3 0x7ffff000 0) (Some EINTR),
              Kernel (Copy_file_range 4 3 0x7ffff000 0) (Some 5)]"
proof -
  let ?w = "copy_world [Fail EINTR, Fail EINTR, Ok 3] []"
  let ?s = "stat_world [Fail EINTR, Fail 2]"
  let ?v = "copy_world [Fail EINTR, Fail 5] []"
  let ?v' = "\<lparr>errno = 5, statx_replies = [], io_replies = [], cancel_reads = [], statx_buf = None,
            trace = [Kernel (Copy_file_range 4 3 0x7ffff000 0) (Some EINTR),
                     Kernel (Copy_file_range 4 3 0x7ffff000 0) (Some 5)],
            pending = Some (IOExceptionWithLastError 5 ''Copy failed'')\<rparr>"
  have h1: "io_replies ?w = replicate 2 (Fail EINTR) @ Ok 3 # [] \<and> Ok 3 \<noteq> (Fail EINTR :: nat reply)"
    by (simp add: copy_world_def numeral_2_eq_2)
  have h2: "my_statx_func both_resolved \<noteq> NULL \<and>
            statx_replies ?s = replicate 1 (Fail EINTR) @ Fail 2 # [] \<and> Fail 2 \<noteq> (Fail EINTR :: statx reply)"
    by (simp add: both_resolved_def stat_world_def EINTR_def)
  have h3: "Java_sun_nio_fs_LinuxNativeDispatcher_directCopy0 both_resolved 3 4 0 ?v = Some (IOS_THROWN, ?v')"
    by (simp add: run_directCopy0)
  have a: "\<exists>w'. RESTARTABLE (call_copy_file_range 4 3 1048576 0) ?w = Some (3, w') \<and>
          trace w' = [Kernel (Copy_file_range 4 3 1048576 0) (Some EINTR),
                      Kernel (Copy_file_range 4 3 1048576 0) (Some EINTR),
                      Kernel (Copy_file_range 4 3 1048576 0) None]"
    using interrupted_calls_restarted [where w = "?w" and src = 4 and dst = 3 and count = 1048576,
        THEN conjunct1, rule_format, OF h1, THEN conjunct1]
    by (simp add: copy_world_def numeral_2_eq_2)
  have b: "\<exists>a' w'. Java_sun_nio_fs_LinuxNativeDispatcher_statxfd0 both_resolved 5 blank_attributes ?s =
               Some (2, a', w') \<and> (\<exists>c. trace w' = [Kernel c (Some EINTR), Kernel c (Some 2)])"
    using interrupted_calls_restarted [where w = "?s" and caps = both_resolved and fd = 5
          and a = blank_attributes,
        THEN conjunct2, THEN conjunct1, rule_format, OF h2, THEN conjunct2]
    by (simp add: stat_world_def)
  have c: "IOS_THROWN \<noteq> EINTR \<and> surfaced (pending ?v) (pending ?v') \<and>
           (\<exists>evs. trace ?v' = trace ?v @ evs \<and> restarted evs)"
    using interrupted_calls_restarted [where w = "?v" and caps = both_resolved and dst = 3
          and src = 4 and cancel = 0,
        THEN conjunct2, THEN conjunct2, THEN conjunct2, THEN conjunct1, rule_format, OF h3] .
  from a b c h3 show ?thesis by (simp add: copy_world_def)
qed

subsection \<open>C8: the size of every chunk request\<close>

text \<open>
  Claim C8: whenever \<^verbatim>\<open>directCopy0\<close> returns, every kernel call it made is a chunk
  request of Tier A or Tier B for 1048576 bytes if a cancellation handle was supplied,
  and for \<^verbatim>\<open>0x7ffff000\<close> bytes, which the source names as the most that
  \<^verbatim>\<open>sendfile()\<close> transfers in one call, if none was. The same holds of the calls made
  up to the head of any iteration the call reaches, whether or not it returns.
\<close>

theorem chunk_size_of_every_request:
  "(\<forall>r w'. Java_sun_nio_fs_LinuxNativeDispatcher_directCopy0 caps dst src cancel w = Some (r, w') \<longrightarrow>
      (\<exists>evs. trace w' = trace w @ evs \<and>
             list_all (requests (if cancel \<noteq> 0 then 1048576 else 0x7ffff000)) evs)) \<and>
   (\<forall>t w1. reaches caps dst src cancel w t w1 \<longrightarrow>
      (\<exists>evs. trace w1 = trace w @ evs \<and>
             list_all (requests (if cancel \<noteq> 0 then 1048576 else 0x7ffff000)) evs))"
proof (intro conjI allI impI)
  fix r w'
  assume "Java_sun_nio_fs_LinuxNativeDispatcher_directCopy0 caps dst src cancel w = Some (r, w')"
  from directCopy0_run [OF this]
  show "\<exists>evs. trace w' = trace w @ evs \<and>
             list_all (requests (if cancel \<noteq> 0 then 1048576 else 0x7ffff000)) evs"
    unfolding run_ok_iff chunk_size_def by auto
next
  fix t w1
  assume "reaches caps dst src cancel w t w1"
  from reaches_run [OF this]
  show "\<exists>evs. trace w1 = trace w @ evs \<and>
             list_all (requests (if cancel \<noteq> 0 then 1048576 else 0x7ffff000)) evs"
    unfolding run_ok_iff chunk_size_def by auto
qed

theorem chunk_size_of_every_request_witness:
  "Java_sun_nio_fs_LinuxNativeDispatcher_directCopy0 both_resolved 3 4 0x1000
     (copy_world [Ok 9, Fail EXDEV, Ok 9, Ok 0] [0, 0, 0, 0]) =
     Some (0, \<lparr>errno = EXDEV, statx_replies = [], io_replies = [], cancel_reads = [],
               statx_buf = None,
               trace = [Kernel (Copy_file_range 4 3 1048576 0) None, Read_cancel 0,
                        Kernel (Copy_file_range 4 3 1048576 0) (Some EXDEV), Read_cancel 0,
                        Kernel (Sendfile64 3 4 1048576) None, Read_cancel 0,
                        Kernel (Sendfile64 3 4 1048576) None, Read_cancel 0],
               pending = None\<rparr>) \<and>
   list_all (requests 1048576)
     [Kernel (Copy_file_range 4 3 1048576 0) None, Read_cancel 0,
      Kernel (Copy_file_range 4 3 1048576 0) (Some EXDEV), Read_cancel 0,
      Kernel (Sendfile64 3 4 1048576) None, Read_cancel 0,
      Kernel (Sendfile64 3 4 1048576) None, Read_cancel 0]"
proof -
  let ?w = "copy_world [Ok 9, Fail EXDEV, Ok 9, Ok 0] [0, 0, 0, 0]"
  let ?w' = "\<lparr>errno = EXDEV, statx_replies = [], io_replies = [], cancel_reads = [],
               statx_buf = None,
               trace = [Kernel (Copy_file_range 4 3 1048576 0) None, Read_cancel 0,
                        Kernel (Copy_file_range 4 3 1048576 0) (Some EXDEV), Read_cancel 0,
                        Kernel (Sendfile64 3 4 1048576) None, Read_cancel 0,
                        Kernel (Sendfile64 3 4 1048576) None, Read_cancel 0],
               pending = None\<rparr>"
  have h: "Java_sun_nio_fs_LinuxNativeDispatcher_directCopy0 both_resolved 3 4 0x1000 ?w = Some (0, ?w')"
    by (simp add: run_directCopy0)
  from chunk_size_of_every_request [THEN conjunct1, rule_format, OF h] h show ?thesis
    by (simp add: copy_world_def)
qed

subsection \<open>C9: the symlink policy of a query by path\<close>

text \<open>
  Claim C9: every \<^verbatim>\<open>statx\<close> call of \<^verbatim>\<open>statx0\<close> is made on \<^verbatim>\<open>AT_FDCWD\<close> (-100) and the
  caller's path with the mask \<^verbatim>\<open>STATX_ALL\<close> (\<^verbatim>\<open>0xfff\<close>); its flags are
  \<^verbatim>\<open>AT_SYMLINK_NOFOLLOW\<close> (\<^verbatim>\<open>0x100\<close>) when \<^verbatim>\<open>follow_links\<close> is \<^verbatim>\<open>JNI_FALSE\<close> and 0 when
  it is not, so the two cases differ in that flag alone.
\<close>

theorem symlink_policy:
  assumes "my_statx_func caps \<noteq> NULL"
      and "statx_replies w = replicate k (Fail EINTR) @ r # rest" and "r \<noteq> Fail EINTR"
  shows "\<exists>ret a' w'.
           Java_sun_nio_fs_LinuxNativeDispatcher_statx0 caps p a fl w = Some (ret, a', w') \<and>
           trace w' = trace w
             @ replicate k (Kernel (Statx (- 100) (Path_at p) (if fl = 0 then 0x100 else 0) 0xfff) (Some EINTR))
             @ [Kernel (Statx (- 100) (Path_at p) (if fl = 0 then 0x100 else 0) 0xfff) (reported r)]"
  using statx0_total [OF assms, of p a fl] by (simp add: statx0_call_def)

theorem symlink_policy_witness:
  "my_statx_func both_resolved \<noteq> NULL \<and>
   (\<exists>ret a' w'.
      Java_sun_nio_fs_LinuxNativeDispatcher_statx0 both_resolved 0x2000 blank_attributes 0
        (stat_world [Fail EINTR, Ok sample_statx]) = Some (ret, a', w') \<and>
      trace w' = [Kernel (Statx (- 100) (Path_at 0x2000) 0x100 0xfff) (Some EINTR),
                  Kernel (Statx (- 100) (Path_at 0x2000) 0x100 0xfff) None]) \<and>
   (\<exists>ret a' w'.
      Java_sun_nio_fs_LinuxNativeDispatcher_statx0 both_resolved 0x2000 blank_attributes 1
        (stat_world [Fail EINTR, Ok sample_statx]) = Some (ret, a', w') \<and>
      trace w' = [Kernel (Statx (- 100) (Path_at 0x2000) 0 0xfff) (Some EINTR),
                  Kernel (Statx (- 100) (Path_at 0x2000) 0 0xfff) None])"
proof -
  let ?w = "stat_world [Fail EINTR, Ok sample_statx]"
  have h1: "my_statx_func both_resolved \<noteq> NULL" by (simp add: both_resolved_def)
  have h2: "statx_replies ?w = replicate 1 (Fail EINTR) @ Ok sample_statx # []"
    by (simp add: stat_world_def)
  have h3: "Ok sample_statx \<noteq> Fail EINTR" by simp
  from symlink_policy [OF h1 h2 h3, where p = "0x2000" and a = blank_attributes and fl = 0]
       symlink_policy [OF h1 h2 h3, where p = "0x2000" and a = blank_attributes and fl = 1] h1
  show ?thesis by (simp add: stat_world_def)
qed

subsection \<open>C10: the attributes object is written on success only\<close>

text \<open>
  Claim C10, for \<^verbatim>\<open>statx0\<close> and \<^verbatim>\<open>statxfd0\<close> alike: without \<^verbatim>\<open>statx\<close> the call returns
  the caller's attributes; when \<^verbatim>\<open>statx\<close> fails with an error \<open>e\<close> (other than \<^verbatim>\<open>EINTR\<close>,
  which is restarted) the call returns \<open>e\<close> and the caller's attributes; when \<^verbatim>\<open>statx\<close>
  succeeds with the buffer \<open>buf\<close> the call returns 0 and the attributes that
  \<^verbatim>\<open>copy_statx_attributes\<close> makes from \<open>buf\<close>. Conversely, whenever a call returns
  attributes other than the caller's, \<^verbatim>\<open>statx\<close> was resolved, its last reply was a
  success, the value returned is 0 and the attributes are those
  \<^verbatim>\<open>copy_statx_attributes\<close> makes from the buffer of that reply.
\<close>

theorem attributes_written_only_on_success:
  "(my_statx_func caps = NULL \<longrightarrow>
      Java_sun_nio_fs_LinuxNativeDispatcher_statx0 caps p a fl w = Some (0, a, w) \<and>
      Java_sun_nio_fs_LinuxNativeDispatcher_statxfd0 caps fd a w = Some (0, a, w)) \<and>
   (my_statx_func caps \<noteq> NULL \<and> statx_replies w = replicate k (Fail EINTR) @ Fail e # rest \<and> e \<noteq> EINTR \<longrightarrow>
      (\<exists>w'. Java_sun_nio_fs_LinuxNativeDispatcher_statx0 caps p a fl w = Some (e, a, w')) \<and>
      (\<exists>w'. Java_sun_nio_fs_LinuxNativeDispatcher_statxfd0 caps fd a w = Some (e, a, w'))) \<and>
   (my_statx_func caps \<noteq> NULL \<and> statx_replies w = replicate k (Fail EINTR) @ Ok buf # rest \<longrightarrow>
      (\<exists>w'. Java_sun_nio_fs_LinuxNativeDispatcher_statx0 caps p a fl w =
               Some (0, copy_statx_attributes buf a, w')) \<and>
      (\<exists>w'. Java_sun_nio_fs_LinuxNativeDispatcher_statxfd0 caps fd a w =
               Some (0, copy_statx_attributes buf a, w'))) \<and>
   (\<forall>ret a' w'. (Java_sun_nio_fs_LinuxNativeDispatcher_statx0 caps p a fl w = Some (ret, a', w') \<or>
                  Java_sun_nio_fs_LinuxNativeDispatcher_statxfd0 caps fd a w = Some (ret, a', w')) \<and>
                 a' \<noteq> a \<longrightarrow>
      my_statx_func caps \<noteq> NULL \<and> ret = 0 \<and>
      (\<exists>k buf rest. statx_replies w = replicate k (Fail EINTR) @ Ok buf # rest \<and>
                     a' = copy_statx_attributes buf a))"
proof (intro conjI impI allI)
  assume "my_statx_func caps = NULL"
  then show "Java_sun_nio_fs_LinuxNativeDispatcher_statx0 caps p a fl w = Some (0, a, w)"
    and "Java_sun_nio_fs_LinuxNativeDispatcher_statxfd0 caps fd a w = Some (0, a, w)"
    by (simp_all add: statx_unavailable)
next
  assume h: "my_statx_func caps \<noteq> NULL \<and> statx_replies w = replicate k (Fail EINTR) @ Fail e # rest \<and> e \<noteq> EINTR"
  then have ne: "Fail e \<noteq> (Fail EINTR :: statx reply)" by simp
  from h statx0_total [OF _ _ ne, of caps w k rest p a fl]
  show "\<exists>w'. Java_sun_nio_fs_LinuxNativeDispatcher_statx0 caps p a fl w = Some (e, a, w')" by simp
  from h statxfd0_total [OF _ _ ne, of caps w k rest fd a]
  show "\<exists>w'. Java_sun_nio_fs_LinuxNativeDispatcher_statxfd0 caps fd a w = Some (e, a, w')" by simp
next
  assume h: "my_statx_func caps \<noteq> NULL \<and> statx_replies w = replicate k (Fail EINTR) @ Ok buf # rest"
  have ne: "Ok buf \<noteq> (Fail EINTR :: statx reply)" by simp
  from h statx0_total [OF _ _ ne, of caps w k rest p a fl]
  show "\<exists>w'. Java_sun_nio_fs_LinuxNativeDispatcher_statx0 caps p a fl w =
               Some (0, copy_statx_attributes buf a, w')" by simp
  from h statxfd0_total [OF _ _ ne, of caps w k rest fd a]
  show "\<exists>w'. Java_sun_nio_fs_LinuxNativeDispatcher_statxfd0 caps fd a w =
               Some (0, copy_statx_attributes buf a, w')" by simp
next
  fix ret a' w'
  assume h: "(Java_sun_nio_fs_LinuxNativeDispatcher_statx0 caps p a fl w = Some (ret, a', w') \<or>
              Java_sun_nio_fs_LinuxNativeDispatcher_statxfd0 caps fd a w = Some (ret, a', w')) \<and> a' \<noteq> a"
  show avail: "my_statx_func caps \<noteq> NULL"
    using h statx_unavailable [of caps p a fl w fd] by auto
  from h consider
      "Java_sun_nio_fs_LinuxNativeDispatcher_statx0 caps p a fl w = Some (ret, a', w')"
    | "Java_sun_nio_fs_LinuxNativeDispatcher_statxfd0 caps fd a w = Some (ret, a', w')"
    by blast
  then have "\<exists>k r rest. statx_replies w = replicate k (Fail EINTR) @ r # rest \<and> r \<noteq> Fail EINTR"
    by cases (erule statx0_Some [OF _ avail], erule statxfd0_Some [OF _ avail])
  then obtain k r rest where
    s: "statx_replies w = replicate k (Fail EINTR) @ r # rest" "r \<noteq> Fail EINTR"
    by blast
  from h statx0_total [OF avail s, of p a fl] statxfd0_total [OF avail s, of fd a]
  have "ret = 0 \<and> (\<exists>buf. r = Ok buf \<and> a' = copy_statx_attributes buf a)"
    by (cases r) auto
  with s show "ret = 0"
    and "\<exists>k buf rest. statx_replies w = replicate k (Fail EINTR) @ Ok buf # rest \<and>
                     a' = copy_statx_attributes buf a"
    by blast+
qed

theorem attributes_written_only_on_success_witness:
  "Java_sun_nio_fs_LinuxNativeDispatcher_statx0 none_resolved 0x2000 blank_attributes 1
     (stat_world [Fail EINTR, Fail 2]) = Some (0, blank_attributes, stat_world [Fail EINTR, Fail 2]) \<and>
   (\<exists>w'. Java_sun_nio_fs_LinuxNativeDispatcher_statx0 both_resolved 0x2000 blank_attributes 1
            (stat_world [Fail EINTR, Fail 2]) = Some (2, blank_attributes, w')) \<and>
   (\<exists>w'. Java_sun_nio_fs_LinuxNativeDispatcher_statxfd0 both_resolved 5 blank_attributes
            (stat_world [Fail EINTR, Fail 2]) = Some (2, blank_attributes, w')) \<and>
   (\<exists>w'. Java_sun_nio_fs_LinuxNativeDispatcher_statx0 both_resolved 0x2000 blank_attributes 1
            (stat_world [Fail EINTR, Ok sample_statx]) =
            Some (0, copy_statx_attributes sample_statx blank_attributes, w')) \<and>
   (\<exists>k buf rest. statx_replies (stat_world [Ok sample_statx]) = replicate k (Fail EINTR) @ Ok buf # rest \<and>
      copy_statx_attributes sample_statx blank_attributes = copy_statx_attributes buf blank_attributes)"
proof -
  let ?f = "stat_world [Fail EINTR, Fail 2]"
  let ?g = "stat_world [Fail EINTR, Ok sample_statx]"
  let ?h = "stat_world [Ok sample_statx]"
  let ?h' = "\<lparr>errno = 0, statx_replies = [], io_replies = [], cancel_reads = [],
            statx_buf = Some sample_statx,
            trace = [Kernel (Statx (- 100) (Path_at 0x2000) 0 0xfff) None], pending = None\<rparr>"
  have n: "my_statx_func none_resolved = NULL" by (simp add: none_resolved_def)
  have f: "my_statx_func both_resolved \<noteq> NULL \<and>
           statx_replies ?f = replicate 1 (Fail EINTR) @ Fail 2 # [] \<and> 2 \<noteq> EINTR"
    by (simp add: both_resolved_def stat_world_def EINTR_def)
  have g: "my_statx_func both_resolved \<noteq> NULL \<and>
           statx_replies ?g = replicate 1 (Fail EINTR) @ Ok sample_statx # []"
    by (simp add: both_resolved_def stat_world_def)
  have h: "(Java_sun_nio_fs_LinuxNativeDispatcher_statx0 both_resolved 0x2000 blank_attributes 1 ?h =
              Some (0, copy_statx_attributes sample_statx blank_attributes, ?h') \<or>
            Java_sun_nio_fs_LinuxNativeDispatcher_statxfd0 both_resolved 5 blank_attributes ?h =
              Some (0, copy_statx_attributes sample_statx blank_attributes, ?h')) \<and>
           copy_statx_attributes sample_statx blank_attributes \<noteq> blank_attributes"
    by (simp add: run_statx copy_statx_attributes_def sample_statx_def blank_attributes_def)
  note t = attributes_written_only_on_success
  from t [where caps = none_resolved and p = "0x2000" and a = blank_attributes and fl = 1
            and w = "?f", THEN conjunct1, rule_format, OF n]
  have 1: "Java_sun_nio_fs_LinuxNativeDispatcher_statx0 none_resolved 0x2000 blank_attributes 1 ?f =
           Some (0, blank_attributes, ?f)" by simp
  from t [where caps = both_resolved and p = "0x2000" and a = blank_attributes and fl = 1
            and fd = 5 and w = "?f", THEN conjunct2, THEN conjunct1, rule_format, OF f]
  have 2: "(\<exists>w'. Java_sun_nio_fs_LinuxNativeDispatcher_statx0 both_resolved 0x2000 blank_attributes 1
            ?f = Some (2, blank_attributes, w')) \<and>
           (\<exists>w'. Java_sun_nio_fs_LinuxNativeDispatcher_statxfd0 both_resolved 5 blank_attributes
            ?f = Some (2, blank_attributes, w'))" .
  from t [where caps = both_resolved and p = "0x2000" and a = blank_attributes and fl = 1
            and w = "?g", THEN conjunct2, THEN conjunct2, THEN conjunct1, rule_format, OF g]
  have 3: "\<exists>w'. Java_sun_nio_fs_LinuxNativeDispatcher_statx0 both_resolved 0x2000 blank_attributes 1
            ?g = Some (0, copy_statx_attributes sample_statx blank_attributes, w')" by simp
  from t [where caps = both_resolved and p = "0x2000" and a = blank_attributes and fl = 1
            and fd = 5 and w = "?h", THEN conjunct2, THEN conjunct2, THEN conjunct2, rule_format, OF h]
  have 4: "\<exists>k buf rest. statx_replies ?h = replicate k (Fail EINTR) @ Ok buf # rest \<and>
      copy_statx_attributes sample_statx blank_attributes = copy_statx_attributes buf blank_attributes"
    by simp
  from 1 2 3 4 show ?thesis by simp
qed

end
